theory Spec2Isabelle
  imports Main "HOL-Library.Sublist"
begin

section \<open>Declared configuration (internal/config/config.go)\<close>

text \<open>
  The structs of the configuration package become records. Go's \<open>int\<close> fields are
  only compared with zero and printed, so they are plain integers. A
  \<open>*ProxyConfig\<close> that may be nil is an option; the pointee is never written after
  the YAML decoder built it, so holding it by value loses nothing. A \<open>time.Time\<close>
  is a natural number, the zero time being 0.
\<close>

record ProxyConfig =
  EnableWebSocket :: bool
  ClientMaxBodySize :: string
  ProxyHTTPVersion :: string
  ProxyHeaders :: "string list"
  ProxyRedirect :: string

text \<open>
  \<open>StreamSNITemplateFile\<close> is read by internal/nginx/manager.go
  (\<open>m.config.Global.StreamSNITemplateFile\<close>) although the declaration of
  \<open>GlobalConfig\<close> in config.go does not list it; it is added here as the string
  field the manager uses.
\<close>

record GlobalConfig =
  NginxConfigDir :: string
  StreamConfigDir :: string
  NginxReloadCmd :: string
  HTTPTemplateFile :: string
  StreamTemplateFile :: string
  StreamSNITemplateFile :: string
  DefaultProxy :: ProxyConfig
  HostIP :: string
  SSLCertPath :: string
  SSLKeyPath :: string
  ForceHTTPS :: bool

text \<open>
  \<open>EnableSNI\<close>, \<open>DomainRoutes\<close> and \<open>StaticUpstreams\<close> are likewise read by
  manager.go from a \<open>ServiceConfig\<close> and missing from its declaration in config.go;
  they get the types of the \<open>StreamConfig\<close> fields they are copied into.
\<close>

record ServiceConfig =
  Name :: string
  Type :: string
  ContainerName :: string
  Domain :: string
  Path :: string
  Port :: int
  ListenPort :: int
  ContainerPort :: int
  UpstreamName :: string
  ProxyConfig :: "ProxyConfig option"
  EnableSNI :: bool
  DomainRoutes :: "string \<rightharpoonup> string"
  StaticUpstreams :: "string \<rightharpoonup> string list"

record Config =
  Global :: GlobalConfig
  Services :: "ServiceConfig list"
  filePath :: string
  lastMod :: nat

datatype error =
    ErrReadConfig
  | ErrParseConfig
  | ErrValidation error
  | ErrNginxConfigDirEmpty
  | ErrStreamConfigDirEmpty
  | ErrNginxReloadCmdEmpty
  | ErrServiceNameEmpty
  | ErrServiceType string
  | ErrContainerNameEmpty string
  | ErrUpstreamNameEmpty string
  | ErrDomainEmpty string
  | ErrPortEmpty string
  | ErrListenPortEmpty string
  | ErrContainerPortEmpty string
  | ErrTemplatePathEmpty
  | ErrTemplateNotExist string
  | ErrTemplateOpen
  | ErrUnsupportedType string
  | ErrWriteHTTP string
  | ErrWriteStream string
  | ErrDeleteHTTP
  | ErrDeleteStream
  | ErrReloadCmdBlank
  | ErrReloadCmdFailed
  | ErrInspect

text \<open>\<open>strings.TrimPrefix\<close>: the prefix is cut off once when it is there.\<close>

definition TrimPrefix :: "string \<Rightarrow> string \<Rightarrow> string" where
  "TrimPrefix s p = (if prefix p s then drop (length p) s else s)"

text \<open>
  The loop of \<open>GetServiceByContainerName\<close> over \<open>c.Services\<close>, in declaration
  order, returning at the first service whose trimmed name equals the trimmed reported name.
\<close>

fun scanServices :: "string \<Rightarrow> ServiceConfig list \<Rightarrow> ServiceConfig option" where
  "scanServices normalizedName [] = None"
| "scanServices normalizedName (service # rest) =
     (let configName = TrimPrefix (ContainerName service) ''/''
      in if configName = normalizedName then Some service
         else scanServices normalizedName rest)"

definition GetServiceByContainerName :: "Config \<Rightarrow> string \<Rightarrow> ServiceConfig option" where
  "GetServiceByContainerName c containerName =
     (let normalizedName = TrimPrefix containerName ''/''
      in scanServices normalizedName (Services c))"

definition Validate :: "Config \<Rightarrow> error option" where
  "Validate c =
     (if NginxConfigDir (Global c) = '''' then Some ErrNginxConfigDirEmpty
      else if StreamConfigDir (Global c) = '''' then Some ErrStreamConfigDirEmpty
      else if NginxReloadCmd (Global c) = '''' then Some ErrNginxReloadCmdEmpty
      else None)"

definition ValidateService :: "ServiceConfig \<Rightarrow> error option" where
  "ValidateService service =
     (if Name service = '''' then Some ErrServiceNameEmpty
      else if Type service \<noteq> ''http'' \<and> Type service \<noteq> ''stream''
        then Some (ErrServiceType (Name service))
      else if ContainerName service = '''' then Some (ErrContainerNameEmpty (Name service))
      else if UpstreamName service = '''' then Some (ErrUpstreamNameEmpty (Name service))
      else if Type service = ''http'' \<and> Domain service = ''''
        then Some (ErrDomainEmpty (Name service))
      else if Type service = ''http'' \<and> Port service = 0
        then Some (ErrPortEmpty (Name service))
      else if Type service = ''stream'' \<and> ListenPort service = 0
        then Some (ErrListenPortEmpty (Name service))
      else if Type service = ''stream'' \<and> ContainerPort service = 0
        then Some (ErrContainerPortEmpty (Name service))
      else None)"

section \<open>The operating system as the program sees it\<close>

text \<open>
  The program reads and writes files, asks for modification times and runs the reload
  command. The state below holds what those calls can observe: the files with their
  content and modification time, the paths on which an operation is refused (a
  permission error, a missing directory), the clock that stamps written files, the
  commands executed so far, and which commands exit with a failure.
\<close>

record fentry =
  content :: string
  modTime :: nat

record OS =
  files :: "string \<rightharpoonup> fentry"
  denied :: "string \<Rightarrow> bool"
  clock :: nat
  execLog :: "string list list"
  execFails :: "string list \<Rightarrow> bool"

datatype oserr = ENOENT | EACCES

definition os_Stat :: "OS \<Rightarrow> string \<Rightarrow> oserr + nat" where
  "os_Stat os path = (case files os path of None \<Rightarrow> Inl ENOENT | Some f \<Rightarrow> Inr (modTime f))"

definition os_ReadFile :: "OS \<Rightarrow> string \<Rightarrow> oserr + string" where
  "os_ReadFile os path =
     (if denied os path then Inl EACCES
      else case files os path of None \<Rightarrow> Inl ENOENT | Some f \<Rightarrow> Inr (content f))"

definition os_WriteFile :: "OS \<Rightarrow> string \<Rightarrow> string \<Rightarrow> oserr option \<times> OS" where
  "os_WriteFile os path text =
     (if denied os path then (Some EACCES, os)
      else (None, os\<lparr>files := (files os)(path \<mapsto> \<lparr>content = text, modTime = clock os\<rparr>)\<rparr>))"

definition os_Remove :: "OS \<Rightarrow> string \<Rightarrow> oserr option \<times> OS" where
  "os_Remove os path =
     (if denied os path then (Some EACCES, os)
      else case files os path of
             None \<Rightarrow> (Some ENOENT, os)
           | Some f \<Rightarrow> (None, os\<lparr>files := (files os)(path := None)\<rparr>))"

definition IsNotExist :: "oserr option \<Rightarrow> bool" where
  "IsNotExist err = (err = Some ENOENT)"

text \<open>
  \<open>filepath.Join\<close> of a directory and a file name. The library also cleans the
  result (doubled separators, dot segments); no property below depends on the shape of
  the path, only on it being a function of the directory and the service name.
\<close>

definition filepath_Join :: "string \<Rightarrow> string \<Rightarrow> string" where
  "filepath_Join dir name = (if dir = '''' then name else dir @ ''/'' @ name)"

text \<open>
  \<open>strings.Fields\<close> splits around runs of white space as \<open>unicode.IsSpace\<close> has
  it: tab, line feed, vertical tab, form feed, carriage return and space, and the runes
  U+0085, U+00A0, U+1680, U+2000 to U+200A, U+2028, U+2029, U+202F, U+205F and U+3000.
  The library walks the string rune by rune; a byte that starts no valid UTF-8 encoding
  is a rune of its own and no white space. The first byte of every white-space encoding is
  below 0x80 or one of 0xC2, 0xE1, 0xE2, 0xE3, and such a byte is never consumed as a
  later byte of another rune (those lie in 0x80 to 0xBF): the walk stands at the first byte
  of each white-space encoding in the string, so matching the encodings on the bytes finds
  exactly the white-space runes. \<open>spaceWidth\<close> is the length of the white-space
  encoding the string starts with, 0 when it starts with none.
\<close>

definition asciiSpace :: "char \<Rightarrow> bool" where
  "asciiSpace c = (c \<in> set [CHR '' '', CHR 0x09, CHR 0x0A, CHR 0x0B, CHR 0x0C, CHR 0x0D])"

definition spaceWidth :: "string \<Rightarrow> nat" where
  "spaceWidth s =
     (case s of
        [] \<Rightarrow> 0
      | c # rest \<Rightarrow>
          if asciiSpace c then 1
          else if prefix [CHR 0xC2, CHR 0x85] s \<or> prefix [CHR 0xC2, CHR 0xA0] s then 2
          else if prefix [CHR 0xE1, CHR 0x9A, CHR 0x80] s then 3
          else if prefix [CHR 0xE2, CHR 0x80] s \<and>
                  (case drop 2 s of
                     [] \<Rightarrow> False
                   | x # after \<Rightarrow>
                       x \<in> set [CHR 0x80, CHR 0x81, CHR 0x82, CHR 0x83, CHR 0x84, CHR 0x85,
                                 CHR 0x86, CHR 0x87, CHR 0x88, CHR 0x89, CHR 0x8A,
                                 CHR 0xA8, CHR 0xA9, CHR 0xAF]) then 3
          else if prefix [CHR 0xE2, CHR 0x81, CHR 0x9F] s then 3
          else if prefix [CHR 0xE3, CHR 0x80, CHR 0x80] s then 3
          else 0)"

text \<open>
  The walk: \<open>skip\<close> counts the bytes still to pass of a white-space rune already
  seen, \<open>cur\<close> is the field being collected.
\<close>

fun fieldsFrom :: "nat \<Rightarrow> string \<Rightarrow> string \<Rightarrow> string list" where
  "fieldsFrom skip cur [] = (if cur = [] then [] else [cur])"
| "fieldsFrom skip cur (c # cs) =
     (if 0 < skip then fieldsFrom (skip - 1) cur cs
      else if 0 < spaceWidth (c # cs)
        then (if cur = [] then fieldsFrom (spaceWidth (c # cs) - 1) [] cs
              else cur # fieldsFrom (spaceWidth (c # cs) - 1) [] cs)
      else fieldsFrom 0 (cur @ [c]) cs)"

definition Fields :: "string \<Rightarrow> string list" where
  "Fields s = fieldsFrom 0 [] s"

text \<open>\<open>fmt.Sprintf("%d", n)\<close>.\<close>

function natDigits :: "nat \<Rightarrow> string" where
  "natDigits n =
     (if n < 10 then [''0123456789'' ! n]
      else natDigits (n div 10) @ [''0123456789'' ! (n mod 10)])"
  by pat_completeness auto
termination
  by (relation "measure (\<lambda>n. n)") auto

declare natDigits.simps [simp del]

definition Itoa :: "int \<Rightarrow> string" where
  "Itoa i = (if i < 0 then CHR ''-'' # natDigits (nat (- i)) else natDigits (nat i))"

section \<open>The upstream registry (internal/nginx/manager.go)\<close>

text \<open>A \<open>nat.Port\<close> is a string such as \<open>9000/tcp\<close>.\<close>

type_synonym nat_Port = string

text \<open>
  \<open>Port.Port()\<close> of go-connections, used by the templates: the part before the
  protocol separator.
\<close>

definition Port_Port :: "nat_Port \<Rightarrow> string" where
  "Port_Port p = takeWhile (\<lambda>c. c \<noteq> CHR ''/'') p"

record UpstreamServer =
  srvIP :: string
  srvPort :: nat_Port

record HTTPConfig =
  hcServiceName :: string
  hcDomain :: string
  hcPath :: string
  hcUpstream :: "UpstreamServer list"
  hcProxyConfig :: "ProxyConfig option"

record StreamConfig =
  scServiceName :: string
  scListenPort :: int
  scUpstream :: "UpstreamServer list"
  scEnableSNI :: bool
  scDomainRoutes :: "string \<rightharpoonup> string"
  scStaticUpstreams :: "string \<rightharpoonup> string list"

record HTTPTemplateData =
  tdServiceName :: string
  tdDomain :: string
  tdPath :: string
  tdUpstream :: "UpstreamServer list"
  tdEnableWebSocket :: bool
  tdClientMaxBodySize :: string
  tdProxyHTTPVersion :: string
  tdProxyHeaders :: "string list"
  tdProxyRedirect :: string
  tdEnableSSL :: bool
  tdSSLCertificate :: string
  tdSSLCertificateKey :: string
  tdForceHTTPS :: bool

record StreamTemplateData =
  sdServiceName :: string
  sdListenPort :: int
  sdUpstream :: "UpstreamServer list"
  sdEnableSNI :: bool
  sdDomainRoutes :: "string \<rightharpoonup> string"
  sdDefaultRoute :: string
  sdStaticUpstreams :: "string \<rightharpoonup> string list"

text \<open>
  The manager holds a pointer to the configuration and two maps from service name to
  entry. The entries are pointers in the source; each is reachable only through its map,
  so a map of values, written back after every change, is the same state.
  \<open>UpdateService\<close> holds the manager's lock from start to end, so its calls happen
  one at a time and the model takes them in that order.
\<close>

record Manager =
  config :: Config
  httpConfigs :: "string \<rightharpoonup> HTTPConfig"
  streamConfigs :: "string \<rightharpoonup> StreamConfig"

text \<open>
  The template library (text/template) is outside the repository: parsing a template
  text and executing it on the data is a parameter, \<open>None\<close> when either step fails.
\<close>

record Engine =
  execHTTP :: "string \<Rightarrow> HTTPTemplateData \<Rightarrow> string option"
  execStream :: "string \<Rightarrow> StreamTemplateData \<Rightarrow> string option"

definition loadTemplate :: "OS \<Rightarrow> string \<Rightarrow> error + string" where
  "loadTemplate os templateFile =
     (if templateFile = '''' then Inl ErrTemplatePathEmpty
      else if IsNotExist (case os_Stat os templateFile of Inl e \<Rightarrow> Some e | Inr t \<Rightarrow> None)
        then Inl (ErrTemplateNotExist templateFile)
      else case os_ReadFile os templateFile of
             Inl e \<Rightarrow> Inl ErrTemplateOpen
           | Inr text \<Rightarrow> Inr text)"

definition NewManager :: "Config \<Rightarrow> Manager" where
  "NewManager cfg = \<lparr>config = cfg, httpConfigs = Map.empty, streamConfigs = Map.empty\<rparr>"

text \<open>
  \<open>updateUpstreamServer\<close>: the loop overwrites the first server with the same IP and
  returns; when it finds none the server is appended.
\<close>

fun updateUpstreamServer :: "UpstreamServer list \<Rightarrow> UpstreamServer \<Rightarrow> UpstreamServer list" where
  "updateUpstreamServer [] server = [server]"
| "updateUpstreamServer (existingServer # rest) server =
     (if srvIP existingServer = srvIP server then server # rest
      else existingServer # updateUpstreamServer rest server)"

text \<open>\<open>removeUpstreamServer\<close>: the loop cuts out the first server with the IP and returns.\<close>

fun removeUpstreamServer :: "UpstreamServer list \<Rightarrow> string \<Rightarrow> UpstreamServer list" where
  "removeUpstreamServer [] ip = []"
| "removeUpstreamServer (server # rest) ip =
     (if srvIP server = ip then rest else server # removeUpstreamServer rest ip)"

definition deleteHTTPConfig :: "OS \<Rightarrow> Manager \<Rightarrow> string \<Rightarrow> error option \<times> OS \<times> Manager" where
  "deleteHTTPConfig os m serviceName =
     (let filename = serviceName @ ''.conf'';
          filepath = filepath_Join (NginxConfigDir (Global (config m))) filename;
          (err, os') = os_Remove os filepath
      in if err \<noteq> None \<and> \<not> IsNotExist err then (Some ErrDeleteHTTP, os', m)
         else (None, os', m\<lparr>httpConfigs := (httpConfigs m)(serviceName := None)\<rparr>))"

definition deleteStreamConfig :: "OS \<Rightarrow> Manager \<Rightarrow> string \<Rightarrow> error option \<times> OS \<times> Manager" where
  "deleteStreamConfig os m serviceName =
     (let filename = serviceName @ ''.conf'';
          filepath = filepath_Join (StreamConfigDir (Global (config m))) filename;
          (err, os') = os_Remove os filepath
      in if err \<noteq> None \<and> \<not> IsNotExist err then (Some ErrDeleteStream, os', m)
         else (None, os', m\<lparr>streamConfigs := (streamConfigs m)(serviceName := None)\<rparr>))"

definition httpTemplateData :: "Manager \<Rightarrow> HTTPConfig \<Rightarrow> HTTPTemplateData" where
  "httpTemplateData m httpConfig =
     (let proxyConfig = (case hcProxyConfig httpConfig of
                           None \<Rightarrow> DefaultProxy (Global (config m))
                         | Some p \<Rightarrow> p)
      in \<lparr>tdServiceName = hcServiceName httpConfig,
          tdDomain = hcDomain httpConfig,
          tdPath = hcPath httpConfig,
          tdUpstream = hcUpstream httpConfig,
          tdEnableWebSocket = EnableWebSocket proxyConfig,
          tdClientMaxBodySize = ClientMaxBodySize proxyConfig,
          tdProxyHTTPVersion = ProxyHTTPVersion proxyConfig,
          tdProxyHeaders = ProxyHeaders proxyConfig,
          tdProxyRedirect = ProxyRedirect proxyConfig,
          tdEnableSSL = (SSLCertPath (Global (config m)) \<noteq> '''' \<and> SSLKeyPath (Global (config m)) \<noteq> ''''),
          tdSSLCertificate = SSLCertPath (Global (config m)),
          tdSSLCertificateKey = SSLKeyPath (Global (config m)),
          tdForceHTTPS = ForceHTTPS (Global (config m))\<rparr>)"

text \<open>
  \<open>buildHTTPConfigContent\<close> returns a string and no error: when the template cannot be
  loaded, parsed or executed it logs and returns the empty string.
\<close>

definition buildHTTPConfigContent :: "Engine \<Rightarrow> OS \<Rightarrow> Manager \<Rightarrow> HTTPConfig \<Rightarrow> string" where
  "buildHTTPConfigContent E os m httpConfig =
     (let templateData = httpTemplateData m httpConfig
      in case loadTemplate os (HTTPTemplateFile (Global (config m))) of
           Inl err \<Rightarrow> ''''
         | Inr templateContent \<Rightarrow>
             (case execHTTP E templateContent templateData of
                None \<Rightarrow> ''''
              | Some text \<Rightarrow> text))"

definition streamTemplateData :: "StreamConfig \<Rightarrow> StreamTemplateData" where
  "streamTemplateData streamConfig =
     \<lparr>sdServiceName = scServiceName streamConfig,
      sdListenPort = scListenPort streamConfig,
      sdUpstream = scUpstream streamConfig,
      sdEnableSNI = scEnableSNI streamConfig,
      sdDomainRoutes = scDomainRoutes streamConfig,
      sdDefaultRoute = scServiceName streamConfig,
      sdStaticUpstreams = scStaticUpstreams streamConfig\<rparr>"

definition streamTemplateFile :: "Manager \<Rightarrow> StreamConfig \<Rightarrow> string" where
  "streamTemplateFile m streamConfig =
     (if scEnableSNI streamConfig
      then (if StreamSNITemplateFile (Global (config m)) = '''' then ''conf/stream-sni.conf.tpl''
            else StreamSNITemplateFile (Global (config m)))
      else StreamTemplateFile (Global (config m)))"

definition buildStreamConfigContent :: "Engine \<Rightarrow> OS \<Rightarrow> Manager \<Rightarrow> StreamConfig \<Rightarrow> string" where
  "buildStreamConfigContent E os m streamConfig =
     (let templateData = streamTemplateData streamConfig;
          templateFile = streamTemplateFile m streamConfig
      in case loadTemplate os templateFile of
           Inl err \<Rightarrow> ''''
         | Inr templateContent \<Rightarrow>
             (case execStream E templateContent templateData of
                None \<Rightarrow> ''''
              | Some text \<Rightarrow> text))"

definition generateHTTPConfig ::
  "Engine \<Rightarrow> OS \<Rightarrow> Manager \<Rightarrow> HTTPConfig \<Rightarrow> error option \<times> OS \<times> Manager" where
  "generateHTTPConfig E os m httpConfig =
     (if length (hcUpstream httpConfig) = 0 then deleteHTTPConfig os m (hcServiceName httpConfig)
      else
        let configContent = buildHTTPConfigContent E os m httpConfig;
            filename = hcServiceName httpConfig @ ''.conf'';
            filepath = filepath_Join (NginxConfigDir (Global (config m))) filename;
            (err, os') = os_WriteFile os filepath configContent
        in if err \<noteq> None then (Some (ErrWriteHTTP filename), os', m) else (None, os', m))"

definition generateStreamConfig ::
  "Engine \<Rightarrow> OS \<Rightarrow> Manager \<Rightarrow> StreamConfig \<Rightarrow> error option \<times> OS \<times> Manager" where
  "generateStreamConfig E os m streamConfig =
     (if length (scUpstream streamConfig) = 0 \<and> \<not> scEnableSNI streamConfig
      then deleteStreamConfig os m (scServiceName streamConfig)
      else
        let configContent = buildStreamConfigContent E os m streamConfig;
            filename = scServiceName streamConfig @ ''.conf'';
            filepath = filepath_Join (StreamConfigDir (Global (config m))) filename;
            (err, os') = os_WriteFile os filepath configContent
        in if err \<noteq> None then (Some (ErrWriteStream filename), os', m) else (None, os', m))"

definition updateHTTPService ::
  "Engine \<Rightarrow> OS \<Rightarrow> Manager \<Rightarrow> ServiceConfig \<Rightarrow> string \<Rightarrow> nat_Port \<Rightarrow> error option \<times> OS \<times> Manager" where
  "updateHTTPService E os m service containerIP containerPort =
     (let httpConfig =
            (case httpConfigs m (Name service) of
               Some existing \<Rightarrow> existing
             | None \<Rightarrow> \<lparr>hcServiceName = Name service,
                        hcDomain = Domain service,
                        hcPath = Path service,
                        hcUpstream = [],
                        hcProxyConfig = ProxyConfig service\<rparr>);
          httpConfig' =
            (if containerIP \<noteq> '''' \<and> containerPort \<noteq> ''''
             then httpConfig\<lparr>hcUpstream :=
                    updateUpstreamServer (hcUpstream httpConfig)
                      \<lparr>srvIP = containerIP, srvPort = containerPort\<rparr>\<rparr>
             else httpConfig\<lparr>hcUpstream :=
                    removeUpstreamServer (hcUpstream httpConfig) containerIP\<rparr>);
          m' = m\<lparr>httpConfigs := (httpConfigs m)(Name service \<mapsto> httpConfig')\<rparr>
      in generateHTTPConfig E os m' httpConfig')"

definition updateStreamService ::
  "Engine \<Rightarrow> OS \<Rightarrow> Manager \<Rightarrow> ServiceConfig \<Rightarrow> string \<Rightarrow> nat_Port \<Rightarrow> error option \<times> OS \<times> Manager" where
  "updateStreamService E os m service containerIP containerPort =
     (let streamConfig =
            (case streamConfigs m (Name service) of
               Some existing \<Rightarrow> existing
             | None \<Rightarrow> \<lparr>scServiceName = Name service,
                        scListenPort = ListenPort service,
                        scUpstream = [],
                        scEnableSNI = EnableSNI service,
                        scDomainRoutes = DomainRoutes service,
                        scStaticUpstreams = StaticUpstreams service\<rparr>);
          streamConfig' =
            (if containerIP \<noteq> '''' \<and> containerPort \<noteq> ''''
             then streamConfig\<lparr>scUpstream :=
                    updateUpstreamServer (scUpstream streamConfig)
                      \<lparr>srvIP = containerIP, srvPort = containerPort\<rparr>\<rparr>
             else streamConfig\<lparr>scUpstream :=
                    removeUpstreamServer (scUpstream streamConfig) containerIP\<rparr>);
          m' = m\<lparr>streamConfigs := (streamConfigs m)(Name service \<mapsto> streamConfig')\<rparr>
      in generateStreamConfig E os m' streamConfig')"

definition UpdateService ::
  "Engine \<Rightarrow> OS \<Rightarrow> Manager \<Rightarrow> ServiceConfig \<Rightarrow> string \<Rightarrow> nat_Port \<Rightarrow> error option \<times> OS \<times> Manager" where
  "UpdateService E os m service containerIP containerPort =
     (if Type service = ''http'' then updateHTTPService E os m service containerIP containerPort
      else if Type service = ''stream'' then updateStreamService E os m service containerIP containerPort
      else (Some (ErrUnsupportedType (Type service)), os, m))"

definition UpdateConfig :: "Manager \<Rightarrow> Config \<Rightarrow> Manager" where
  "UpdateConfig m cfg = m\<lparr>config := cfg\<rparr>"

text \<open>
  \<open>Manager.Reload\<close>: the command string is split on white space; an empty split is an
  error and nothing runs, otherwise the command is executed and its exit decides.
\<close>

definition Manager_Reload :: "OS \<Rightarrow> Manager \<Rightarrow> error option \<times> OS" where
  "Manager_Reload os m =
     (let parts = Fields (NginxReloadCmd (Global (config m)))
      in if length parts = 0 then (Some ErrReloadCmdBlank, os)
         else
           let os' = os\<lparr>execLog := execLog os @ [parts]\<rparr>
           in if execFails os parts then (Some ErrReloadCmdFailed, os') else (None, os'))"

section \<open>Loading and reloading the configuration (internal/config/config.go)\<close>

text \<open>
  The YAML decoder is outside the repository: it is a parameter that turns the file's
  text into the exported fields of a \<open>Config\<close>, or fails.
\<close>

type_synonym Yaml = "string \<Rightarrow> (GlobalConfig \<times> ServiceConfig list) option"

definition Load :: "Yaml \<Rightarrow> OS \<Rightarrow> string \<Rightarrow> error + Config" where
  "Load Y os filename =
     (case os_ReadFile os filename of
        Inl e \<Rightarrow> Inl ErrReadConfig
      | Inr data \<Rightarrow>
          (case Y data of
             None \<Rightarrow> Inl ErrParseConfig
           | Some (g, svcs) \<Rightarrow>
               let config = \<lparr>Global = g, Services = svcs, filePath = filename,
                              lastMod = (case os_Stat os filename of Inr t \<Rightarrow> t | Inl e \<Rightarrow> 0)\<rparr>
               in case Validate config of
                    Some e \<Rightarrow> Inl (ErrValidation e)
                  | None \<Rightarrow> Inr config))"

text \<open>
  \<open>Config.Reload\<close>: on an error the receiver is not touched; otherwise the whole
  struct is assigned through the pointer.
\<close>

definition Config_Reload :: "Yaml \<Rightarrow> OS \<Rightarrow> Config \<Rightarrow> error option \<times> Config" where
  "Config_Reload Y os c =
     (case Load Y os (filePath c) of
        Inl err \<Rightarrow> (Some err, c)
      | Inr newConfig \<Rightarrow> (None, newConfig))"

definition HasChanged :: "OS \<Rightarrow> Config \<Rightarrow> bool" where
  "HasChanged os c =
     (case os_Stat os (filePath c) of Inl e \<Rightarrow> False | Inr t \<Rightarrow> lastMod c < t)"

section \<open>The watcher (internal/watcher/watcher.go)\<close>

text \<open>
  What the inspection call of the container runtime returns, as far as the watcher reads
  it. \<open>Networks\<close> is a Go map that \<open>getContainerIP\<close> ranges over; the list is the
  map in the order the range visits it, and lookups go through \<open>map_of\<close>.
  \<open>Ports\<close> maps a port such as \<open>9000/tcp\<close> to its host bindings; an exposed
  port that is not published is present with no binding.
\<close>

record EndpointSettings =
  IPAddress :: string

record PortBinding =
  pbHostIP :: string
  pbHostPort :: string

record ContainerJSON =
  cName :: string
  Networks :: "(string \<times> EndpointSettings) list"
  Ports :: "string \<rightharpoonup> PortBinding list"

type_synonym Docker = "string \<Rightarrow> ContainerJSON option"

record Message =
  Action :: string
  ActorID :: string

text \<open>
  \<open>New\<close> hands the same \<open>*Config\<close> to the watcher and to the manager, and
  \<open>watchConfigFile\<close> passes that pointer to \<open>UpdateConfig\<close> again: the two fields
  always name one object. The record keeps a copy in each place and a reload writes both.
\<close>

record Watcher =
  wconfig :: Config
  nginxMgr :: Manager

definition New :: "Config \<Rightarrow> Watcher" where
  "New cfg = \<lparr>wconfig = cfg, nginxMgr = NewManager cfg\<rparr>"

definition getContainerInfo :: "Docker \<Rightarrow> string \<Rightarrow> error + ContainerJSON" where
  "getContainerInfo D containerID =
     (case D containerID of None \<Rightarrow> Inl ErrInspect | Some container \<Rightarrow> Inr container)"

definition getContainerIP :: "Watcher \<Rightarrow> ContainerJSON \<Rightarrow> string" where
  "getContainerIP w container =
     (if map_of (Networks container) ''host'' \<noteq> None then HostIP (Global (wconfig w))
      else case find (\<lambda>(networkName, network). networkName \<noteq> ''bridge'' \<and> IPAddress network \<noteq> '''')
                  (Networks container) of
             Some (networkName, network) \<Rightarrow> IPAddress network
           | None \<Rightarrow>
               if map_of (Networks container) ''bridge'' \<noteq> None then HostIP (Global (wconfig w))
               else '''')"

text \<open>The host port of the first binding, when the port is in the table with a binding.\<close>

definition firstHostPort :: "PortBinding list option \<Rightarrow> string option" where
  "firstHostPort bs = (case bs of Some (b # rest) \<Rightarrow> Some (pbHostPort b) | _ \<Rightarrow> None)"

definition getContainerPort :: "ContainerJSON \<Rightarrow> ServiceConfig \<Rightarrow> nat_Port" where
  "getContainerPort container service =
     (let targetPort = (if Type service = ''http'' then Port service
                        else if Type service = ''stream'' then ContainerPort service
                        else 0);
          tcp = Itoa targetPort @ ''/tcp'';
          udp = Itoa targetPort @ ''/udp'';
          bridge = (map_of (Networks container) ''bridge'' \<noteq> None)
      in if map_of (Networks container) ''host'' \<noteq> None then tcp
         else
           case (if bridge then firstHostPort (Ports container tcp) else None) of
             Some hostPort \<Rightarrow> hostPort @ ''/tcp''
           | None \<Rightarrow>
               (case (if bridge then firstHostPort (Ports container udp) else None) of
                  Some hostPort \<Rightarrow> hostPort @ ''/udp''
                | None \<Rightarrow>
                    if Ports container tcp \<noteq> None then tcp
                    else if Ports container udp \<noteq> None then udp
                    else tcp))"

definition updateNginxConfig ::
  "Engine \<Rightarrow> OS \<Rightarrow> Watcher \<Rightarrow> ServiceConfig \<Rightarrow> ContainerJSON option \<Rightarrow> OS \<times> Watcher" where
  "updateNginxConfig E os w service container =
     (let containerIP = (case container of None \<Rightarrow> '''' | Some c \<Rightarrow> getContainerIP w c);
          containerPort = (case container of None \<Rightarrow> '''' | Some c \<Rightarrow> getContainerPort c service)
      in if container \<noteq> None \<and> containerIP = '''' then (os, w)
         else if container \<noteq> None \<and> containerPort = '''' then (os, w)
         else
           let (err, os', m') = UpdateService E os (nginxMgr w) service containerIP containerPort
           in if err \<noteq> None then (os', w\<lparr>nginxMgr := m'\<rparr>)
              else
                let (rerr, os'') = Manager_Reload os' m'
                in (os'', w\<lparr>nginxMgr := m'\<rparr>))"

definition handleContainerStart :: "Engine \<Rightarrow> Docker \<Rightarrow> OS \<Rightarrow> Watcher \<Rightarrow> string \<Rightarrow> OS \<times> Watcher" where
  "handleContainerStart E D os w containerID =
     (case getContainerInfo D containerID of
        Inl err \<Rightarrow> (os, w)
      | Inr container \<Rightarrow>
          (case GetServiceByContainerName (wconfig w) (cName container) of
             None \<Rightarrow> (os, w)
           | Some service \<Rightarrow>
               if ValidateService service \<noteq> None then (os, w)
               else updateNginxConfig E os w service (Some container)))"

definition handleContainerStop :: "Engine \<Rightarrow> Docker \<Rightarrow> OS \<Rightarrow> Watcher \<Rightarrow> string \<Rightarrow> OS \<times> Watcher" where
  "handleContainerStop E D os w containerID =
     (case getContainerInfo D containerID of
        Inl err \<Rightarrow> (os, w)
      | Inr container \<Rightarrow>
          (case GetServiceByContainerName (wconfig w) (cName container) of
             None \<Rightarrow> (os, w)
           | Some service \<Rightarrow>
               if ValidateService service \<noteq> None then (os, w)
               else updateNginxConfig E os w service None))"

definition handleContainerRename :: "Engine \<Rightarrow> Docker \<Rightarrow> OS \<Rightarrow> Watcher \<Rightarrow> string \<Rightarrow> OS \<times> Watcher" where
  "handleContainerRename E D os w containerID =
     (case getContainerInfo D containerID of
        Inl err \<Rightarrow> (os, w)
      | Inr container \<Rightarrow>
          (case GetServiceByContainerName (wconfig w) (cName container) of
             None \<Rightarrow> (os, w)
           | Some service \<Rightarrow>
               if ValidateService service \<noteq> None then (os, w)
               else updateNginxConfig E os w service (Some container)))"

definition handleEvent :: "Engine \<Rightarrow> Docker \<Rightarrow> OS \<Rightarrow> Watcher \<Rightarrow> Message \<Rightarrow> OS \<times> Watcher" where
  "handleEvent E D os w event =
     (if Action event = ''start'' then handleContainerStart E D os w (ActorID event)
      else if Action event = ''stop'' \<or> Action event = ''die''
        then handleContainerStop E D os w (ActorID event)
      else if Action event = ''rename'' then handleContainerRename E D os w (ActorID event)
      else (os, w))"

text \<open>
  One tick of \<open>watchConfigFile\<close>. The boolean says whether the tick started a rescan
  (\<open>go w.checkExistingContainers(ctx)\<close>), which runs on its own afterwards.
\<close>

definition watchConfigFileTick :: "Yaml \<Rightarrow> OS \<Rightarrow> Watcher \<Rightarrow> Watcher \<times> bool" where
  "watchConfigFileTick Y os w =
     (if HasChanged os (wconfig w) then
        (case Config_Reload Y os (wconfig w) of
           (Some err, c) \<Rightarrow> (w, False)
         | (None, c) \<Rightarrow> (\<lparr>wconfig = c, nginxMgr = UpdateConfig (nginxMgr w) c\<rparr>, True))
      else (w, False))"

section \<open>The HTTP template (conf/http.conf.tpl)\<close>

text \<open>The text of the template file, byte for byte.\<close>

definition http_conf_tpl_text :: string where
  "http_conf_tpl_text =
     ''{{- if .EnableWebSocket }}\<newline>'' @
     ''map $http_upgrade $connection_upgrade {\<newline>'' @
     ''    default upgrade;\<newline>    '' @
     [CHR 0x27, CHR 0x27] @
     '' close;\<newline>}\<newline>{{- end }}\<newline>'' @
     ''\<newline>upstream {{ .ServiceName }} {\<newline>'' @
     ''{{- range .Upstream }}\<newline>'' @
     ''    server {{ .IP }}:{{ .Port.Port }};\<newline>'' @
     ''{{- end }}\<newline>}\<newline>'' @
     ''\<newline>{{- if .EnableSSL }}\<newline>'' @
     ''{{- if .ForceHTTPS }}\<newline>'' @
     ''# HTTP '' @
     [CHR 0xE5, CHR 0x88, CHR 0xB0] @
     '' HTTPS '' @
     [CHR 0xE9, CHR 0x87, CHR 0x8D, CHR 0xE5, CHR 0xAE, CHR 0x9A, CHR 0xE5, CHR 0x90, CHR 0x91] @
     ''\<newline>server {\<newline>    listen          80;'' @
     ''\<newline>    listen          [::]:80;\<newline>'' @
     ''\<newline>    server_name     {{ .Domain }};\<newline>'' @
     ''    rewrite ^(.*)$  https://$host$1 permanent;\<newline>'' @
     ''}\<newline>{{- end }}\<newline>'' @
     ''\<newline># HTTPS '' @
     [CHR 0xE6, CHR 0x9C, CHR 0x8D, CHR 0xE5, CHR 0x8A, CHR 0xA1, CHR 0xE5, CHR 0x99, CHR 0xA8, CHR 0xE9, CHR 0x85, CHR 0x8D, CHR 0xE7, CHR 0xBD, CHR 0xAE] @
     ''\<newline>server {\<newline>    listen  443       ssl;'' @
     ''\<newline>    listen  [::]:443  ssl;\<newline>'' @
     ''    http2   on;\<newline>\<newline>'' @
     ''    server_name {{ .Domain }};\<newline>'' @
     ''\<newline>    {{- if .SSLCertificate }}\<newline>'' @
     ''    ssl_certificate     {{ .SSLCertificate }};\<newline>'' @
     ''    {{- end }}\<newline>    {{- if .SSLCertificateKey }}'' @
     ''\<newline>    ssl_certificate_key {{ .SSLCertificateKey }};'' @
     ''\<newline>    {{- end }}\<newline>'' @
     ''\<newline>    location {{ .Path }} {\<newline>'' @
     ''        {{- if .EnableWebSocket }}\<newline>'' @
     ''        proxy_http_version 1.1;\<newline>'' @
     ''        proxy_set_header Upgrade $http_upgrade;\<newline>'' @
     ''        proxy_set_header Connection $connection_upgrade;'' @
     ''\<newline>        {{- end }}\<newline>'' @
     ''\<newline>        {{- if .ClientMaxBodySize }}\<newline>'' @
     ''        client_max_body_size {{ .ClientMaxBodySize }};'' @
     ''\<newline>        {{- end }}\<newline>'' @
     ''\<newline>        proxy_pass http://{{ .ServiceName }}/;'' @
     ''\<newline>\<newline>        {{- if .ProxyHTTPVersion }}'' @
     ''\<newline>        proxy_http_version {{ .ProxyHTTPVersion }}'' @
     '';\<newline>        {{- end }}\<newline>'' @
     ''\<newline>        {{- range .ProxyHeaders }}\<newline>'' @
     ''        proxy_set_header {{ . }};\<newline>'' @
     ''        {{- end }}\<newline>\<newline>'' @
     ''        {{- if .ProxyRedirect }}\<newline>'' @
     ''        proxy_redirect {{ .ProxyRedirect }};\<newline>'' @
     ''        {{- end }}\<newline>    }\<newline>'' @
     ''}\<newline>{{- else }}\<newline>'' @
     ''# HTTP '' @
     [CHR 0xE6, CHR 0x9C, CHR 0x8D, CHR 0xE5, CHR 0x8A, CHR 0xA1, CHR 0xE5, CHR 0x99, CHR 0xA8, CHR 0xE9, CHR 0x85, CHR 0x8D, CHR 0xE7, CHR 0xBD, CHR 0xAE] @
     ''\<newline>server {\<newline>    listen 80;\<newline>'' @
     ''    server_name {{ .Domain }};\<newline>'' @
     ''\<newline>    location {{ .Path }} {\<newline>'' @
     ''        {{- if .EnableWebSocket }}\<newline>'' @
     ''        proxy_http_version 1.1;\<newline>'' @
     ''        proxy_set_header Upgrade $http_upgrade;\<newline>'' @
     ''        proxy_set_header Connection $connection_upgrade;'' @
     ''\<newline>        {{- end }}\<newline>'' @
     ''\<newline>        {{- if .ClientMaxBodySize }}\<newline>'' @
     ''        client_max_body_size {{ .ClientMaxBodySize }};'' @
     ''\<newline>        {{- end }}\<newline>'' @
     ''\<newline>        proxy_pass http://{{ .ServiceName }}/;'' @
     ''\<newline>\<newline>        {{- if .ProxyHTTPVersion }}'' @
     ''\<newline>        proxy_http_version {{ .ProxyHTTPVersion }}'' @
     '';\<newline>        {{- end }}\<newline>'' @
     ''\<newline>        {{- range .ProxyHeaders }}\<newline>'' @
     ''        proxy_set_header {{ . }};\<newline>'' @
     ''        {{- end }}\<newline>\<newline>'' @
     ''        {{- if .ProxyRedirect }}\<newline>'' @
     ''        proxy_redirect {{ .ProxyRedirect }};\<newline>'' @
     ''        {{- end }}\<newline>    }\<newline>'' @
     ''}\<newline>{{- end }}\<newline>''"

text \<open>
  What executing conf/http.conf.tpl on the data writes. A left trim marker removes the
  white space before its action, so each optional line starts with its line break.
  \<open>range\<close> writes its body once per element; \<open>if\<close> on a string tests that
  it is not empty.
\<close>

definition tplServers :: "UpstreamServer list \<Rightarrow> string" where
  "tplServers ups =
     concat (map (\<lambda>u. ''\<newline>    server '' @ srvIP u @ '':'' @ Port_Port (srvPort u) @ '';'') ups)"

definition tplLocation :: "HTTPTemplateData \<Rightarrow> string" where
  "tplLocation d =
     ''\<newline>\<newline>    location '' @ tdPath d @ '' {'' @
     (if tdEnableWebSocket d then
        ''\<newline>        proxy_http_version 1.1;\<newline>'' @
        ''        proxy_set_header Upgrade $http_upgrade;\<newline>'' @
        ''        proxy_set_header Connection $connection_upgrade;''
      else '''') @
     (if tdClientMaxBodySize d \<noteq> '''' then
        ''\<newline>        client_max_body_size '' @ tdClientMaxBodySize d @ '';''
      else '''') @
     ''\<newline>\<newline>        proxy_pass http://'' @ tdServiceName d @ ''/;'' @
     (if tdProxyHTTPVersion d \<noteq> '''' then
        ''\<newline>        proxy_http_version '' @ tdProxyHTTPVersion d @ '';''
      else '''') @
     concat (map (\<lambda>h. ''\<newline>        proxy_set_header '' @ h @ '';'') (tdProxyHeaders d)) @
     (if tdProxyRedirect d \<noteq> '''' then
        ''\<newline>        proxy_redirect '' @ tdProxyRedirect d @ '';''
      else '''') @
     ''\<newline>    }\<newline>}''"

definition http_conf_tpl :: "HTTPTemplateData \<Rightarrow> string" where
  "http_conf_tpl d =
     (if tdEnableWebSocket d then
        ''\<newline>map $http_upgrade $connection_upgrade {\<newline>'' @
        ''    default upgrade;\<newline>    '' @
        [CHR 0x27, CHR 0x27] @
        '' close;\<newline>}''
      else '''') @
     ''\<newline>\<newline>upstream '' @ tdServiceName d @ '' {'' @ tplServers (tdUpstream d) @ ''\<newline>}'' @
     (if tdEnableSSL d then
        (if tdForceHTTPS d then
           ''\<newline># HTTP '' @
           [CHR 0xE5, CHR 0x88, CHR 0xB0] @
           '' HTTPS '' @
           [CHR 0xE9, CHR 0x87, CHR 0x8D, CHR 0xE5, CHR 0xAE, CHR 0x9A, CHR 0xE5, CHR 0x90, CHR 0x91] @
           ''\<newline>server {\<newline>    listen          80;'' @
           ''\<newline>    listen          [::]:80;\<newline>'' @
           ''\<newline>    server_name     '' @
           tdDomain d @
           '';\<newline>    rewrite ^(.*)$  https://$host$1 permanent;'' @
           ''\<newline>}''
         else '''') @
        ''\<newline>\<newline># HTTPS '' @
        [CHR 0xE6, CHR 0x9C, CHR 0x8D, CHR 0xE5, CHR 0x8A, CHR 0xA1, CHR 0xE5, CHR 0x99, CHR 0xA8, CHR 0xE9, CHR 0x85, CHR 0x8D, CHR 0xE7, CHR 0xBD, CHR 0xAE] @
        ''\<newline>server {\<newline>    listen  443       ssl;'' @
        ''\<newline>    listen  [::]:443  ssl;\<newline>'' @
        ''    http2   on;\<newline>\<newline>'' @
        ''    server_name '' @
        tdDomain d @ '';'' @
        (if tdSSLCertificate d \<noteq> '''' then
           ''\<newline>    ssl_certificate     '' @ tdSSLCertificate d @ '';''
         else '''') @
        (if tdSSLCertificateKey d \<noteq> '''' then
           ''\<newline>    ssl_certificate_key '' @ tdSSLCertificateKey d @ '';''
         else '''') @
        tplLocation d
      else
        ''\<newline># HTTP '' @
        [CHR 0xE6, CHR 0x9C, CHR 0x8D, CHR 0xE5, CHR 0x8A, CHR 0xA1, CHR 0xE5, CHR 0x99, CHR 0xA8, CHR 0xE9, CHR 0x85, CHR 0x8D, CHR 0xE7, CHR 0xBD, CHR 0xAE] @
        ''\<newline>server {\<newline>    listen 80;\<newline>'' @
        ''    server_name '' @
        tdDomain d @ '';'' @ tplLocation d) @
     ''\<newline>''"

text \<open>
  The template library as it behaves on the repository's HTTP template. Other texts, and
  the stream templates, are not transcribed; this engine reports them as failures.
\<close>

definition repoEngine :: Engine where
  "repoEngine =
     \<lparr>execHTTP = (\<lambda>text d. if text = http_conf_tpl_text then Some (http_conf_tpl d) else None),
      execStream = (\<lambda>text d. None)\<rparr>"

section \<open>Replaying calls on one service\<close>

text \<open>The member list the registry holds for a service, empty when it has no entry.\<close>

definition members :: "Manager \<Rightarrow> ServiceConfig \<Rightarrow> UpstreamServer list" where
  "members m service =
     (if Type service = ''http''
      then (case httpConfigs m (Name service) of None \<Rightarrow> [] | Some h \<Rightarrow> hcUpstream h)
      else if Type service = ''stream''
      then (case streamConfigs m (Name service) of None \<Rightarrow> [] | Some s \<Rightarrow> scUpstream s)
      else [])"

definition kv :: "UpstreamServer list \<Rightarrow> (string \<times> nat_Port) list" where
  "kv ups = map (\<lambda>u. (srvIP u, srvPort u)) ups"

text \<open>
  A sequence of \<open>UpdateService\<close> calls on one service, each with its IP and port,
  run one after the other; errors are logged by the caller and the next call goes on.
\<close>

fun runUpdates ::
  "Engine \<Rightarrow> ServiceConfig \<Rightarrow> (string \<times> nat_Port) list \<Rightarrow> OS \<times> Manager \<Rightarrow> OS \<times> Manager" where
  "runUpdates E service [] st = st"
| "runUpdates E service ((ip, port) # calls) (os, m) =
     (case UpdateService E os m service ip port of
        (err, os', m') \<Rightarrow> runUpdates E service calls (os', m'))"

text \<open>
  The same calls read as operations on a finite map keyed by address: a call with an IP
  and a port assigns, any other call deletes the key.
\<close>

fun replay :: "(string \<times> nat_Port) list \<Rightarrow> (string \<rightharpoonup> nat_Port) \<Rightarrow> (string \<rightharpoonup> nat_Port)" where
  "replay [] M = M"
| "replay ((ip, port) # calls) M =
     replay calls (if ip \<noteq> '''' \<and> port \<noteq> '''' then M(ip \<mapsto> port) else M(ip := None))"

text \<open>Every entry sits under its own service name, as \<open>UpdateService\<close> stores it.\<close>

definition keyed :: "Manager \<Rightarrow> bool" where
  "keyed m \<longleftrightarrow>
     (\<forall>k h. httpConfigs m k = Some h \<longrightarrow> hcServiceName h = k) \<and>
     (\<forall>k s. streamConfigs m k = Some s \<longrightarrow> scServiceName s = k)"

section \<open>A small installation\<close>

text \<open>
  One HTTP service \<open>api\<close> for the container \<open>my-api\<close> on port 9000, with the
  repository's template installed, and a container on the default bridge whose port 9000
  is published on host port 33000.
\<close>

definition exProxy :: ProxyConfig where
  "exProxy =
     \<lparr>EnableWebSocket = False, ClientMaxBodySize = ''2048M'', ProxyHTTPVersion = ''1.1'',
      ProxyHeaders = [''X-Real-IP $remote_addr''], ProxyRedirect = ''off''\<rparr>"

definition exGlobal :: GlobalConfig where
  "exGlobal =
     \<lparr>NginxConfigDir = ''/etc/nginx/conf.d'', StreamConfigDir = ''/etc/nginx/stream.d'',
      NginxReloadCmd = ''nginx -s reload'', HTTPTemplateFile = ''conf/http.conf.tpl'',
      StreamTemplateFile = ''conf/stream.conf.tpl'', StreamSNITemplateFile = '''',
      DefaultProxy = exProxy, HostIP = ''192.168.31.100'',
      SSLCertPath = '''', SSLKeyPath = '''', ForceHTTPS = False\<rparr>"

definition exApi :: ServiceConfig where
  "exApi =
     \<lparr>Name = ''api'', Type = ''http'', ContainerName = ''my-api'',
      Domain = ''api.example.com'', Path = ''/'', Port = 9000, ListenPort = 0,
      ContainerPort = 0, UpstreamName = ''api_backend'', ProxyConfig = None,
      EnableSNI = False, DomainRoutes = Map.empty, StaticUpstreams = Map.empty\<rparr>"

definition exConfig :: Config where
  "exConfig = \<lparr>Global = exGlobal, Services = [exApi], filePath = ''conf/config.yaml'', lastMod = 1\<rparr>"

definition exContainer :: ContainerJSON where
  "exContainer =
     \<lparr>cName = ''/my-api'',
      Networks = [(''bridge'', \<lparr>IPAddress = ''172.17.0.2''\<rparr>)],
      Ports = [''9000/tcp'' \<mapsto> [\<lparr>pbHostIP = ''0.0.0.0'', pbHostPort = ''33000''\<rparr>]]\<rparr>"

definition exDocker :: Docker where
  "exDocker = (\<lambda>containerID. if containerID = ''c1'' then Some exContainer else None)"

definition exOS :: OS where
  "exOS =
     \<lparr>files = [''conf/http.conf.tpl'' \<mapsto> \<lparr>content = http_conf_tpl_text, modTime = 1\<rparr>],
      denied = (\<lambda>path. False), clock = 5, execLog = [], execFails = (\<lambda>cmd. False)\<rparr>"

definition exStart :: Message where
  "exStart = \<lparr>Action = ''start'', ActorID = ''c1''\<rparr>"

definition exStop :: Message where
  "exStop = \<lparr>Action = ''stop'', ActorID = ''c1''\<rparr>"

definition exAfterStart :: "OS \<times> Watcher" where
  "exAfterStart = handleEvent repoEngine exDocker exOS (New exConfig) exStart"

definition exAfterStop :: "OS \<times> Watcher" where
  "exAfterStop = handleEvent repoEngine exDocker (fst exAfterStart) (snd exAfterStart) exStop"

text \<open>What the template writes for \<open>api\<close> with the one member of the bridge container.\<close>

definition exArtifact :: string where
  "exArtifact =
     ''\<newline>\<newline>upstream api {\<newline>'' @
     ''    server 192.168.31.100:33000;\<newline>'' @
     ''}\<newline># HTTP '' @
     [CHR 0xE6, CHR 0x9C, CHR 0x8D, CHR 0xE5, CHR 0x8A, CHR 0xA1, CHR 0xE5, CHR 0x99, CHR 0xA8, CHR 0xE9, CHR 0x85, CHR 0x8D, CHR 0xE7, CHR 0xBD, CHR 0xAE] @
     ''\<newline>server {\<newline>    listen 80;\<newline>'' @
     ''    server_name api.example.com;\<newline>'' @
     ''\<newline>    location / {\<newline>'' @
     ''        client_max_body_size 2048M;\<newline>'' @
     ''\<newline>        proxy_pass http://api/;\<newline>'' @
     ''        proxy_http_version 1.1;\<newline>'' @
     ''        proxy_set_header X-Real-IP $remote_addr;\<newline>'' @
     ''        proxy_redirect off;\<newline>'' @
     ''    }\<newline>}\<newline>''"

text \<open>
  The entry of \<open>api\<close> with that member, the registry that holds it, and the system
  after one and after two runs of the reload command.
\<close>

definition exEntry :: HTTPConfig where
  "exEntry =
     \<lparr>hcServiceName = ''api'', hcDomain = ''api.example.com'', hcPath = ''/'',
      hcUpstream = [\<lparr>srvIP = ''192.168.31.100'', srvPort = ''33000/tcp''\<rparr>],
      hcProxyConfig = None\<rparr>"

definition exMgr1 :: Manager where
  "exMgr1 = \<lparr>config = exConfig, httpConfigs = [''api'' \<mapsto> exEntry], streamConfigs = Map.empty\<rparr>"

definition exOS1 :: OS where
  "exOS1 = exOS\<lparr>files := (files exOS)(''/etc/nginx/conf.d/api.conf'' \<mapsto>
                       \<lparr>content = exArtifact, modTime = 5\<rparr>),
                   execLog := [[''nginx'', ''-s'', ''reload'']]\<rparr>"

definition exOS2 :: OS where
  "exOS2 = exOS1\<lparr>execLog := [[''nginx'', ''-s'', ''reload''], [''nginx'', ''-s'', ''reload'']]\<rparr>"

text \<open>
  Two services that declare the same container, once with the leading separator and once
  without, after a service for another container.
\<close>

definition exDb :: ServiceConfig where
  "exDb = exApi\<lparr>Name := ''db'', ContainerName := ''db''\<rparr>"

definition exWebA :: ServiceConfig where
  "exWebA = exApi\<lparr>Name := ''web-a'', ContainerName := ''/web''\<rparr>"

definition exWebB :: ServiceConfig where
  "exWebB = exApi\<lparr>Name := ''web-b'', ContainerName := ''web''\<rparr>"

definition exDupConfig :: Config where
  "exDupConfig = exConfig\<lparr>Services := [exDb, exWebA, exWebB]\<rparr>"

text \<open>Calls on \<open>api\<close>: an address added, re-added with a new port, a second one added and removed.\<close>

definition exCalls :: "(string \<times> nat_Port) list" where
  "exCalls = [(''10.0.0.1'', ''80/tcp''), (''10.0.0.1'', ''81/tcp''),
              (''10.0.0.2'', ''90/tcp''), (''10.0.0.2'', '''')]"

text \<open>A text occurs in another as a run of consecutive characters.\<close>

fun occursIn :: "string \<Rightarrow> string \<Rightarrow> bool" where
  "occursIn p [] = (p = [])"
| "occursIn p (ch # s) = (prefix p (ch # s) \<or> occursIn p s)"

text \<open>
  The installation later on: the artifact of \<open>api\<close> is on disk and the template
  files are gone.
\<close>

definition exOSold :: OS where
  "exOSold =
     \<lparr>files = [''/etc/nginx/conf.d/api.conf'' \<mapsto> \<lparr>content = exArtifact, modTime = 3\<rparr>],
      denied = (\<lambda>path. False), clock = 7, execLog = [], execFails = (\<lambda>cmd. False)\<rparr>"

text \<open>A stream entry with one member.\<close>

definition exMysql :: StreamConfig where
  "exMysql =
     \<lparr>scServiceName = ''mysql'', scListenPort = 3306,
      scUpstream = [\<lparr>srvIP = ''192.168.31.100'', srvPort = ''3306/tcp''\<rparr>],
      scEnableSNI = False, scDomainRoutes = Map.empty, scStaticUpstreams = Map.empty\<rparr>"

text \<open>The entries of \<open>api\<close> and \<open>mysql\<close> once their last member is gone.\<close>

definition exEntry0 :: HTTPConfig where
  "exEntry0 = exEntry\<lparr>hcUpstream := []\<rparr>"

definition exMysql0 :: StreamConfig where
  "exMysql0 = exMysql\<lparr>scUpstream := []\<rparr>"

definition exMgr0 :: Manager where
  "exMgr0 = \<lparr>config = exConfig, httpConfigs = [''api'' \<mapsto> exEntry0],
             streamConfigs = [''mysql'' \<mapsto> exMysql0]\<rparr>"

text \<open>A stream entry with SNI routing to a static upstream and no member of its own.\<close>

definition exTls :: StreamConfig where
  "exTls =
     \<lparr>scServiceName = ''tls'', scListenPort = 443, scUpstream = [],
      scEnableSNI = True,
      scDomainRoutes = [''a.example.com'' \<mapsto> ''pool_a''],
      scStaticUpstreams = [''pool_a'' \<mapsto> [''10.0.0.5:443'']]\<rparr>"

definition exMgrTls :: Manager where
  "exMgrTls = \<lparr>config = exConfig, httpConfigs = Map.empty, streamConfigs = [''tls'' \<mapsto> exTls]\<rparr>"

text \<open>
  A container on the default bridge whose port 9000 is neither published nor exposed, and
  the runtime that reports it.
\<close>

definition exUnpublished :: ContainerJSON where
  "exUnpublished = exContainer\<lparr>Ports := Map.empty\<rparr>"

definition exDocker2 :: Docker where
  "exDocker2 = (\<lambda>containerID. if containerID = ''c2'' then Some exUnpublished else None)"

text \<open>
  A decoder that knows two texts, one with a new host IP and a second service, one whose
  global section lacks the HTTP directory; every other text is malformed. Three states of
  the configuration file, each modified after the loaded configuration was read.
\<close>

definition exYaml :: Yaml where
  "exYaml = (\<lambda>text.
     if text = ''new-config'' then Some (exGlobal\<lparr>HostIP := ''10.0.0.9''\<rparr>, [exApi, exDb])
     else if text = ''no-dirs'' then Some (exGlobal\<lparr>NginxConfigDir := ''''\<rparr>, [exApi])
     else None)"

definition exOSgood :: OS where
  "exOSgood = exOS\<lparr>files := [''conf/config.yaml'' \<mapsto> \<lparr>content = ''new-config'', modTime = 9\<rparr>]\<rparr>"

definition exOSnodirs :: OS where
  "exOSnodirs = exOS\<lparr>files := [''conf/config.yaml'' \<mapsto> \<lparr>content = ''no-dirs'', modTime = 9\<rparr>]\<rparr>"

definition exOSbad :: OS where
  "exOSbad = exOS\<lparr>files := [''conf/config.yaml'' \<mapsto> \<lparr>content = ''{{'', modTime = 9\<rparr>]\<rparr>"

definition exConfig2 :: Config where
  "exConfig2 =
     \<lparr>Global = exGlobal\<lparr>HostIP := ''10.0.0.9''\<rparr>, Services = [exApi, exDb],
      filePath = ''conf/config.yaml'', lastMod = 9\<rparr>"

text \<open>
  The services as a later configuration declares them, with other routing attributes, and
  a registry that holds an entry for each from before.
\<close>

definition exApiV2 :: ServiceConfig where
  "exApiV2 = exApi\<lparr>Domain := ''v2.example.com'', Path := ''/v2'', ProxyConfig := Some exProxy\<rparr>"

definition exMysqlV2 :: ServiceConfig where
  "exMysqlV2 =
     exApi\<lparr>Name := ''mysql'', Type := ''stream'', ContainerName := ''mysql-db'',
           ListenPort := 3307, ContainerPort := 3306, EnableSNI := True\<rparr>"

definition exConfigV2 :: Config where
  "exConfigV2 = exConfig\<lparr>Services := [exApiV2, exMysqlV2]\<rparr>"

definition exMgrBoth :: Manager where
  "exMgrBoth = \<lparr>config = exConfig, httpConfigs = [''api'' \<mapsto> exEntry],
                streamConfigs = [''mysql'' \<mapsto> exMysql]\<rparr>"

text \<open>
  The die event of the same container, and the configuration with a reload command that
  is one no-break space (U+00A0 in UTF-8), which is not the empty string.
\<close>

definition exDie :: Message where
  "exDie = \<lparr>Action = ''die'', ActorID = ''c1''\<rparr>"

definition exNbspConfig :: Config where
  "exNbspConfig = exConfig\<lparr>Global := exGlobal\<lparr>NginxReloadCmd := [CHR 0xC2, CHR 0xA0]\<rparr>\<rparr>"

section \<open>Properties\<close>

subsection \<open>The member list under update and remove\<close>

lemma set_update_ips:
  "srvIP ` set (updateUpstreamServer ups u) = insert (srvIP u) (srvIP ` set ups)"
  by (induction ups) auto

lemma update_distinct:
  "distinct (map srvIP ups) \<Longrightarrow> distinct (map srvIP (updateUpstreamServer ups u))"
  by (induction ups) (auto simp: set_update_ips)

lemma update_map_of:
  "map_of (kv (updateUpstreamServer ups u)) = (map_of (kv ups))(srvIP u \<mapsto> srvPort u)"
  by (induction ups) (auto simp: kv_def)

lemma set_remove_subset:
  "set (removeUpstreamServer ups ip) \<subseteq> set ups"
  by (induction ups) auto

lemma remove_distinct:
  "distinct (map srvIP ups) \<Longrightarrow> distinct (map srvIP (removeUpstreamServer ups ip))"
  using set_remove_subset by (induction ups) fastforce+

lemma remove_map_of:
  "distinct (map srvIP ups) \<Longrightarrow>
   map_of (kv (removeUpstreamServer ups ip)) = (map_of (kv ups))(ip := None)"
proof (induction ups)
  case Nil
  then show ?case by (simp add: kv_def)
next
  case (Cons a ups)
  show ?case
  proof (cases "srvIP a = ip")
    case True
    with Cons.prems have "ip \<notin> fst ` set (kv ups)" by (force simp: kv_def)
    then have "map_of (kv ups) ip = None" by (simp add: map_of_eq_None_iff)
    with True show ?thesis by (auto simp: kv_def)
  next
    case False
    with Cons show ?thesis by (auto simp: kv_def)
  qed
qed

lemma removeUpstreamServer_absent:
  "ip \<notin> srvIP ` set ups \<Longrightarrow> removeUpstreamServer ups ip = ups"
  by (induction ups) auto

lemma updateUpstreamServer_not_Nil: "updateUpstreamServer ups u \<noteq> []"
  by (cases ups) auto

subsection \<open>What materialization changes\<close>

lemma generateHTTPConfig_mgr:
  "generateHTTPConfig E os m h = (err, os', m') \<Longrightarrow>
   m' = m \<or> (hcUpstream h = [] \<and> m' = m\<lparr>httpConfigs := (httpConfigs m)(hcServiceName h := None)\<rparr>)"
  by (auto simp: generateHTTPConfig_def deleteHTTPConfig_def Let_def split: prod.splits if_splits)

lemma generateStreamConfig_mgr:
  "generateStreamConfig E os m s = (err, os', m') \<Longrightarrow>
   m' = m \<or> (scUpstream s = [] \<and> m' = m\<lparr>streamConfigs := (streamConfigs m)(scServiceName s := None)\<rparr>)"
  by (auto simp: generateStreamConfig_def deleteStreamConfig_def Let_def split: prod.splits if_splits)

lemma os_WriteFile_frame:
  "os_WriteFile os p t = (e, os') \<Longrightarrow>
   execLog os' = execLog os \<and> execFails os' = execFails os \<and> denied os' = denied os \<and> clock os' = clock os"
  by (auto simp: os_WriteFile_def split: if_splits)

lemma os_Remove_frame:
  "os_Remove os p = (e, os') \<Longrightarrow>
   execLog os' = execLog os \<and> execFails os' = execFails os \<and> denied os' = denied os \<and> clock os' = clock os"
  by (auto simp: os_Remove_def split: if_splits option.splits)

lemma generateHTTPConfig_frame:
  "generateHTTPConfig E os m h = (err, os', m') \<Longrightarrow>
   execLog os' = execLog os \<and> execFails os' = execFails os \<and> denied os' = denied os \<and>
   clock os' = clock os \<and> config m' = config m \<and> streamConfigs m' = streamConfigs m"
  by (auto simp: generateHTTPConfig_def deleteHTTPConfig_def Let_def
      split: if_splits prod.splits dest: os_WriteFile_frame os_Remove_frame)

lemma generateStreamConfig_frame:
  "generateStreamConfig E os m s = (err, os', m') \<Longrightarrow>
   execLog os' = execLog os \<and> execFails os' = execFails os \<and> denied os' = denied os \<and>
   clock os' = clock os \<and> config m' = config m \<and> httpConfigs m' = httpConfigs m"
  by (auto simp: generateStreamConfig_def deleteStreamConfig_def Let_def
      split: if_splits prod.splits dest: os_WriteFile_frame os_Remove_frame)

lemma UpdateService_frame:
  "UpdateService E os m service ip port = (err, os', m') \<Longrightarrow>
   execLog os' = execLog os \<and> execFails os' = execFails os \<and> denied os' = denied os \<and>
   clock os' = clock os \<and> config m' = config m"
  by (auto simp: UpdateService_def updateHTTPService_def updateStreamService_def Let_def
      split: if_splits dest!: generateHTTPConfig_frame generateStreamConfig_frame)

lemma generateHTTPConfig_write:
  assumes "hcUpstream h \<noteq> []"
  shows "generateHTTPConfig E os m h =
           (let p = filepath_Join (NginxConfigDir (Global (config m))) (hcServiceName h @ ''.conf'')
            in if denied os p then (Some (ErrWriteHTTP (hcServiceName h @ ''.conf'')), os, m)
               else (None, os\<lparr>files := (files os)(p \<mapsto>
                       \<lparr>content = buildHTTPConfigContent E os m h, modTime = clock os\<rparr>)\<rparr>, m))"
  using assms by (simp add: generateHTTPConfig_def os_WriteFile_def Let_def)

lemma generateStreamConfig_write:
  assumes "scUpstream s \<noteq> [] \<or> scEnableSNI s"
  shows "generateStreamConfig E os m s =
           (let p = filepath_Join (StreamConfigDir (Global (config m))) (scServiceName s @ ''.conf'')
            in if denied os p then (Some (ErrWriteStream (scServiceName s @ ''.conf'')), os, m)
               else (None, os\<lparr>files := (files os)(p \<mapsto>
                       \<lparr>content = buildStreamConfigContent E os m s, modTime = clock os\<rparr>)\<rparr>, m))"
  using assms by (auto simp: generateStreamConfig_def os_WriteFile_def Let_def)

lemma generateHTTPConfig_delete:
  assumes "hcUpstream h = []"
    and "\<not> denied os (filepath_Join (NginxConfigDir (Global (config m))) (hcServiceName h @ ''.conf''))"
  shows "generateHTTPConfig E os m h =
     (None,
      (case files os (filepath_Join (NginxConfigDir (Global (config m))) (hcServiceName h @ ''.conf'')) of
         None \<Rightarrow> os
       | Some f \<Rightarrow> os\<lparr>files := (files os)
           (filepath_Join (NginxConfigDir (Global (config m))) (hcServiceName h @ ''.conf'') := None)\<rparr>),
      m\<lparr>httpConfigs := (httpConfigs m)(hcServiceName h := None)\<rparr>)"
  using assms
  by (simp add: generateHTTPConfig_def deleteHTTPConfig_def os_Remove_def IsNotExist_def Let_def
      split: option.splits)

lemma generateStreamConfig_delete:
  assumes "scUpstream s = []" and "\<not> scEnableSNI s"
    and "\<not> denied os (filepath_Join (StreamConfigDir (Global (config m))) (scServiceName s @ ''.conf''))"
  shows "generateStreamConfig E os m s =
     (None,
      (case files os (filepath_Join (StreamConfigDir (Global (config m))) (scServiceName s @ ''.conf'')) of
         None \<Rightarrow> os
       | Some f \<Rightarrow> os\<lparr>files := (files os)
           (filepath_Join (StreamConfigDir (Global (config m))) (scServiceName s @ ''.conf'') := None)\<rparr>),
      m\<lparr>streamConfigs := (streamConfigs m)(scServiceName s := None)\<rparr>)"
  using assms
  by (simp add: generateStreamConfig_def deleteStreamConfig_def os_Remove_def IsNotExist_def Let_def
      split: option.splits)

subsection \<open>One call of UpdateService\<close>

lemma updateHTTPService_members:
  assumes k: "keyed m" and t: "Type service = ''http''"
    and u: "updateHTTPService E os m service ip port = (err, os', m')"
  shows "members m' service =
           (if ip \<noteq> '''' \<and> port \<noteq> ''''
            then updateUpstreamServer (members m service) \<lparr>srvIP = ip, srvPort = port\<rparr>
            else removeUpstreamServer (members m service) ip) \<and> keyed m'"
proof -
  define h where "h = (case httpConfigs m (Name service) of
               Some existing \<Rightarrow> existing
             | None \<Rightarrow> \<lparr>hcServiceName = Name service, hcDomain = Domain service,
                        hcPath = Path service, hcUpstream = [],
                        hcProxyConfig = ProxyConfig service\<rparr>)"
  define ups where "ups = (if ip \<noteq> '''' \<and> port \<noteq> ''''
            then updateUpstreamServer (hcUpstream h) \<lparr>srvIP = ip, srvPort = port\<rparr>
            else removeUpstreamServer (hcUpstream h) ip)"
  define h' where "h' = h\<lparr>hcUpstream := ups\<rparr>"
  define m1 where "m1 = m\<lparr>httpConfigs := (httpConfigs m)(Name service \<mapsto> h')\<rparr>"
  have nm: "hcServiceName h = Name service"
    using k by (auto simp: h_def keyed_def split: option.splits)
  have mem: "members m service = hcUpstream h"
    using t by (auto simp: members_def h_def split: option.splits)
  have g: "generateHTTPConfig E os m1 h' = (err, os', m')"
    using u by (cases "ip \<noteq> [] \<and> port \<noteq> []")
      (auto simp: updateHTTPService_def Let_def h_def h'_def ups_def m1_def)
  have k1: "keyed m1"
    using k nm by (auto simp: keyed_def m1_def h'_def)
  have tgt: "(if ip \<noteq> [] \<and> port \<noteq> []
            then updateUpstreamServer (members m service) \<lparr>srvIP = ip, srvPort = port\<rparr>
            else removeUpstreamServer (members m service) ip) = ups"
    by (simp only: ups_def mem)
  have "members m' service = ups \<and> keyed m'"
    using generateHTTPConfig_mgr[OF g]
  proof
    assume "m' = m1"
    then show ?thesis using k1 t by (simp add: members_def m1_def h'_def)
  next
    assume a: "hcUpstream h' = [] \<and> m' = m1\<lparr>httpConfigs := (httpConfigs m1)(hcServiceName h' := None)\<rparr>"
    then have "ups = []" by (simp add: h'_def)
    moreover have "keyed m'" using a k1 by (auto simp: keyed_def)
    moreover have "members m' service = []" using a t nm by (simp add: members_def h'_def)
    ultimately show ?thesis by simp
  qed
  then show ?thesis by (simp only: tgt)
qed

lemma updateStreamService_members:
  assumes k: "keyed m" and t: "Type service = ''stream''"
    and u: "updateStreamService E os m service ip port = (err, os', m')"
  shows "members m' service =
           (if ip \<noteq> '''' \<and> port \<noteq> ''''
            then updateUpstreamServer (members m service) \<lparr>srvIP = ip, srvPort = port\<rparr>
            else removeUpstreamServer (members m service) ip) \<and> keyed m'"
proof -
  define h where "h = (case streamConfigs m (Name service) of
               Some existing \<Rightarrow> existing
             | None \<Rightarrow> \<lparr>scServiceName = Name service, scListenPort = ListenPort service,
                        scUpstream = [], scEnableSNI = EnableSNI service,
                        scDomainRoutes = DomainRoutes service,
                        scStaticUpstreams = StaticUpstreams service\<rparr>)"
  define ups where "ups = (if ip \<noteq> '''' \<and> port \<noteq> ''''
            then updateUpstreamServer (scUpstream h) \<lparr>srvIP = ip, srvPort = port\<rparr>
            else removeUpstreamServer (scUpstream h) ip)"
  define h' where "h' = h\<lparr>scUpstream := ups\<rparr>"
  define m1 where "m1 = m\<lparr>streamConfigs := (streamConfigs m)(Name service \<mapsto> h')\<rparr>"
  have nm: "scServiceName h = Name service"
    using k by (auto simp: h_def keyed_def split: option.splits)
  have ne: "Type service \<noteq> ''http''" using t by simp
  have mem: "members m service = scUpstream h"
    using t ne by (auto simp: members_def h_def split: option.splits)
  have g: "generateStreamConfig E os m1 h' = (err, os', m')"
    using u by (cases "ip \<noteq> [] \<and> port \<noteq> []")
      (auto simp: updateStreamService_def Let_def h_def h'_def ups_def m1_def)
  have k1: "keyed m1"
    using k nm by (auto simp: keyed_def m1_def h'_def)
  have tgt: "(if ip \<noteq> [] \<and> port \<noteq> []
            then updateUpstreamServer (members m service) \<lparr>srvIP = ip, srvPort = port\<rparr>
            else removeUpstreamServer (members m service) ip) = ups"
    by (simp only: ups_def mem)
  have "members m' service = ups \<and> keyed m'"
    using generateStreamConfig_mgr[OF g]
  proof
    assume "m' = m1"
    then show ?thesis using k1 t ne by (simp add: members_def m1_def h'_def)
  next
    assume a: "scUpstream h' = [] \<and> m' = m1\<lparr>streamConfigs := (streamConfigs m1)(scServiceName h' := None)\<rparr>"
    then have "ups = []" by (simp add: h'_def)
    moreover have "keyed m'" using a k1 by (auto simp: keyed_def)
    moreover have "members m' service = []" using a t ne nm by (simp add: members_def h'_def)
    ultimately show ?thesis by simp
  qed
  then show ?thesis by (simp only: tgt)
qed

lemma UpdateService_members:
  assumes "keyed m" and "Type service = ''http'' \<or> Type service = ''stream''"
    and "UpdateService E os m service ip port = (err, os', m')"
  shows "members m' service =
           (if ip \<noteq> '''' \<and> port \<noteq> ''''
            then updateUpstreamServer (members m service) \<lparr>srvIP = ip, srvPort = port\<rparr>
            else removeUpstreamServer (members m service) ip) \<and> keyed m'"
  using assms updateHTTPService_members[of m service E os ip port err os' m']
    updateStreamService_members[of m service E os ip port err os' m']
  by (auto simp: UpdateService_def split: if_splits)

lemma runUpdates_members:
  assumes "Type service = ''http'' \<or> Type service = ''stream''"
  shows "keyed m \<Longrightarrow> distinct (map srvIP (members m service)) \<Longrightarrow>
         runUpdates E service calls (os, m) = (os', m') \<Longrightarrow>
         keyed m' \<and> distinct (map srvIP (members m' service)) \<and>
         map_of (kv (members m' service)) = replay calls (map_of (kv (members m service)))"
proof (induction calls arbitrary: os m)
  case Nil
  then show ?case by simp
next
  case (Cons call calls)
  obtain ip port where call: "call = (ip, port)" by (cases call)
  obtain err os1 m1 where step: "UpdateService E os m service ip port = (err, os1, m1)"
    by (cases "UpdateService E os m service ip port")
  from UpdateService_members[OF Cons.prems(1) assms step]
  have mem1: "members m1 service =
           (if ip \<noteq> '''' \<and> port \<noteq> ''''
            then updateUpstreamServer (members m service) \<lparr>srvIP = ip, srvPort = port\<rparr>
            else removeUpstreamServer (members m service) ip)" and k1: "keyed m1"
    by simp_all
  have d1: "distinct (map srvIP (members m1 service))"
    using Cons.prems(2) by (simp add: mem1 update_distinct remove_distinct)
  have run: "runUpdates E service calls (os1, m1) = (os', m')"
    using Cons.prems(3) by (simp add: call step)
  have kv1: "map_of (kv (members m1 service)) =
        (if ip \<noteq> '''' \<and> port \<noteq> '''' then (map_of (kv (members m service)))(ip \<mapsto> port)
         else (map_of (kv (members m service)))(ip := None))"
    using Cons.prems(2) by (simp add: mem1 update_map_of remove_map_of)
  from Cons.IH[OF k1 d1 run] show ?case
    by (simp only: call replay.simps kv1)
qed

lemma updateHTTPService_entry:
  assumes e: "httpConfigs m (Name service) = Some e"
  shows "case httpConfigs (snd (snd (updateHTTPService E os m service ip port))) (Name service) of
        None \<Rightarrow> (ip = '''' \<or> port = '''') \<and> removeUpstreamServer (hcUpstream e) ip = []
      | Some e' \<Rightarrow> e' = e\<lparr>hcUpstream :=
          (if ip \<noteq> '''' \<and> port \<noteq> ''''
           then updateUpstreamServer (hcUpstream e) \<lparr>srvIP = ip, srvPort = port\<rparr>
           else removeUpstreamServer (hcUpstream e) ip)\<rparr>"
proof -
  define ups where "ups = (if ip \<noteq> '''' \<and> port \<noteq> ''''
           then updateUpstreamServer (hcUpstream e) \<lparr>srvIP = ip, srvPort = port\<rparr>
           else removeUpstreamServer (hcUpstream e) ip)"
  define e1 where "e1 = e\<lparr>hcUpstream := ups\<rparr>"
  define m1 where "m1 = m\<lparr>httpConfigs := (httpConfigs m)(Name service \<mapsto> e1)\<rparr>"
  obtain err os' m' where g: "generateHTTPConfig E os m1 e1 = (err, os', m')"
    by (cases "generateHTTPConfig E os m1 e1")
  have u: "updateHTTPService E os m service ip port = (err, os', m')"
    using g e by (cases "ip \<noteq> [] \<and> port \<noteq> []")
      (auto simp: updateHTTPService_def Let_def e1_def ups_def m1_def)
  have n: "ups = [] \<Longrightarrow> (ip = '''' \<or> port = '''') \<and> removeUpstreamServer (hcUpstream e) ip = []"
    using updateUpstreamServer_not_Nil[of "hcUpstream e" "\<lparr>srvIP = ip, srvPort = port\<rparr>"]
    by (auto simp: ups_def split: if_splits)
  have "case httpConfigs m' (Name service) of
        None \<Rightarrow> (ip = '''' \<or> port = '''') \<and> removeUpstreamServer (hcUpstream e) ip = []
      | Some e' \<Rightarrow> e' = e1"
    using generateHTTPConfig_mgr[OF g] n by (auto simp: m1_def e1_def)
  then show ?thesis
    unfolding u e1_def ups_def by simp
qed

lemma updateStreamService_entry:
  assumes e: "streamConfigs m (Name service) = Some e"
  shows "case streamConfigs (snd (snd (updateStreamService E os m service ip port))) (Name service) of
        None \<Rightarrow> (ip = '''' \<or> port = '''') \<and> removeUpstreamServer (scUpstream e) ip = []
      | Some e' \<Rightarrow> e' = e\<lparr>scUpstream :=
          (if ip \<noteq> '''' \<and> port \<noteq> ''''
           then updateUpstreamServer (scUpstream e) \<lparr>srvIP = ip, srvPort = port\<rparr>
           else removeUpstreamServer (scUpstream e) ip)\<rparr>"
proof -
  define ups where "ups = (if ip \<noteq> '''' \<and> port \<noteq> ''''
           then updateUpstreamServer (scUpstream e) \<lparr>srvIP = ip, srvPort = port\<rparr>
           else removeUpstreamServer (scUpstream e) ip)"
  define e1 where "e1 = e\<lparr>scUpstream := ups\<rparr>"
  define m1 where "m1 = m\<lparr>streamConfigs := (streamConfigs m)(Name service \<mapsto> e1)\<rparr>"
  obtain err os' m' where g: "generateStreamConfig E os m1 e1 = (err, os', m')"
    by (cases "generateStreamConfig E os m1 e1")
  have u: "updateStreamService E os m service ip port = (err, os', m')"
    using g e by (cases "ip \<noteq> [] \<and> port \<noteq> []")
      (auto simp: updateStreamService_def Let_def e1_def ups_def m1_def)
  have n: "ups = [] \<Longrightarrow> (ip = '''' \<or> port = '''') \<and> removeUpstreamServer (scUpstream e) ip = []"
    using updateUpstreamServer_not_Nil[of "scUpstream e" "\<lparr>srvIP = ip, srvPort = port\<rparr>"]
    by (auto simp: ups_def split: if_splits)
  have "case streamConfigs m' (Name service) of
        None \<Rightarrow> (ip = '''' \<or> port = '''') \<and> removeUpstreamServer (scUpstream e) ip = []
      | Some e' \<Rightarrow> e' = e1"
    using generateStreamConfig_mgr[OF g] n by (auto simp: m1_def e1_def)
  then show ?thesis
    unfolding u e1_def ups_def by simp
qed

subsection \<open>The small installation, step by step\<close>

lemma Fields_reload: "Fields ''nginx -s reload'' = [''nginx'', ''-s'', ''reload'']"
  by (simp add: Fields_def spaceWidth_def asciiSpace_def)

lemma Fields_unicode:
  "Fields (''a'' @ [CHR 0xC2, CHR 0xA0] @ ''b'') = [''a'', ''b'']"
  "Fields (''a'' @ [CHR 0xE2, CHR 0x80, CHR 0xA8] @ ''b c'') = [''a'', ''b'', ''c'']"
  "Fields (''a'' @ [CHR 0x85] @ ''b'') = [''a'' @ [CHR 0x85] @ ''b'']"
  "Fields (''a'' @ [CHR 0xC3, CHR 0xA9] @ ''b'') = [''a'' @ [CHR 0xC3, CHR 0xA9] @ ''b'']"
  "Fields (''a'' @ [CHR 0xF0, CHR 0xC2, CHR 0x85] @ ''b'') = [''a'' @ [CHR 0xF0], ''b'']"
  by (simp_all add: Fields_def spaceWidth_def asciiSpace_def)

lemma Itoa_9000: "Itoa 9000 = ''9000''"
  by (simp add: Itoa_def natDigits.simps)

lemma exIP: "getContainerIP (New exConfig) exContainer = ''192.168.31.100''"
  by (simp add: getContainerIP_def exContainer_def New_def exConfig_def exGlobal_def)

lemma exMatch: "GetServiceByContainerName exConfig ''/my-api'' = Some exApi"
  by (simp add: GetServiceByContainerName_def exConfig_def TrimPrefix_def exApi_def)

lemma exValid: "ValidateService exApi = None"
  by (simp add: ValidateService_def exApi_def)

lemma exName: "cName exContainer = ''/my-api''"
  by (simp add: exContainer_def)

lemma exLoad: "loadTemplate exOS ''conf/http.conf.tpl'' = Inr http_conf_tpl_text"
  by (simp add: loadTemplate_def exOS_def os_Stat_def os_ReadFile_def IsNotExist_def)

lemma exPort: "getContainerPort exContainer exApi = ''33000/tcp''"
  by (simp add: getContainerPort_def exContainer_def exApi_def Itoa_9000 firstHostPort_def Let_def)

lemma exRender: "http_conf_tpl (httpTemplateData exMgr1 exEntry) = exArtifact"
  by (simp add: http_conf_tpl_def tplLocation_def tplServers_def Port_Port_def exArtifact_def
      httpTemplateData_def exMgr1_def exEntry_def exConfig_def exGlobal_def exProxy_def)

lemma exBuild: "buildHTTPConfigContent repoEngine os exMgr1 exEntry =
   (case loadTemplate os ''conf/http.conf.tpl'' of Inl e \<Rightarrow> '''' | Inr t \<Rightarrow>
      if t = http_conf_tpl_text then exArtifact else '''')"
  using exRender
  by (simp add: buildHTTPConfigContent_def repoEngine_def exMgr1_def exConfig_def exGlobal_def
       split: sum.splits)

lemma exGen:
  assumes "loadTemplate os ''conf/http.conf.tpl'' = Inr http_conf_tpl_text" "\<not> denied os ''/etc/nginx/conf.d/api.conf''"
  shows "generateHTTPConfig repoEngine os exMgr1 exEntry =
   (None, os\<lparr>files := (files os)(''/etc/nginx/conf.d/api.conf'' \<mapsto>
                       \<lparr>content = exArtifact, modTime = clock os\<rparr>)\<rparr>, exMgr1)"
proof -
  have b: "buildHTTPConfigContent repoEngine os exMgr1 exEntry = exArtifact"
    by (simp add: exBuild assms)
  have p: "filepath_Join (NginxConfigDir (Global (config exMgr1))) (hcServiceName exEntry @ ''.conf'')
        = ''/etc/nginx/conf.d/api.conf''"
    by (simp add: filepath_Join_def exMgr1_def exEntry_def exConfig_def exGlobal_def)
  have u: "hcUpstream exEntry \<noteq> []" by (simp add: exEntry_def)
  show ?thesis
    using u assms(2) by (simp add: generateHTTPConfig_def b p os_WriteFile_def)
qed

lemma exUpd1: "UpdateService repoEngine exOS (NewManager exConfig) exApi ''192.168.31.100'' ''33000/tcp''
   = (None, exOS\<lparr>files := (files exOS)(''/etc/nginx/conf.d/api.conf'' \<mapsto>
                       \<lparr>content = exArtifact, modTime = 5\<rparr>)\<rparr>, exMgr1)"
proof -
  have "UpdateService repoEngine exOS (NewManager exConfig) exApi ''192.168.31.100'' ''33000/tcp''
     = generateHTTPConfig repoEngine exOS exMgr1 exEntry"
    by (simp add: UpdateService_def updateHTTPService_def NewManager_def exApi_def exMgr1_def
        exEntry_def Let_def)
  also have "\<dots> = (None, exOS\<lparr>files := (files exOS)(''/etc/nginx/conf.d/api.conf'' \<mapsto>
                       \<lparr>content = exArtifact, modTime = clock exOS\<rparr>)\<rparr>, exMgr1)"
    by (rule exGen) (simp_all add: exLoad, simp add: exOS_def)
  finally show ?thesis by (simp add: exOS_def)
qed

lemma exReload1: "Manager_Reload os exMgr1 =
   (if execFails os [''nginx'', ''-s'', ''reload''] then Some ErrReloadCmdFailed else None,
    os\<lparr>execLog := execLog os @ [[''nginx'', ''-s'', ''reload'']]\<rparr>)"
  by (simp add: Manager_Reload_def exMgr1_def exConfig_def exGlobal_def Fields_reload)

lemma exStartEval: "exAfterStart = (exOS1, \<lparr>wconfig = exConfig, nginxMgr = exMgr1\<rparr>)"
proof -
  have "exAfterStart = updateNginxConfig repoEngine exOS (New exConfig) exApi (Some exContainer)"
    by (simp add: exAfterStart_def handleEvent_def exStart_def handleContainerStart_def
        getContainerInfo_def exDocker_def New_def exName exMatch exValid)
  also have "\<dots> = (exOS1, \<lparr>wconfig = exConfig, nginxMgr = exMgr1\<rparr>)"
    by (simp add: updateNginxConfig_def exIP exPort exReload1,
        simp add: New_def exUpd1 exReload1 exOS1_def, simp add: exOS_def)
  finally show ?thesis .
qed

lemma exLoad1: "loadTemplate exOS1 ''conf/http.conf.tpl'' = Inr http_conf_tpl_text"
  by (simp add: loadTemplate_def exOS1_def exOS_def os_Stat_def os_ReadFile_def IsNotExist_def)

lemma exUpd2: "UpdateService repoEngine exOS1 exMgr1 exApi '''' '''' = (None, exOS1, exMgr1)"
proof -
  have m: "exMgr1\<lparr>httpConfigs := (httpConfigs exMgr1)(''api'' \<mapsto> exEntry)\<rparr> = exMgr1"
    by (simp add: exMgr1_def)
  have r: "exEntry\<lparr>hcUpstream := removeUpstreamServer (hcUpstream exEntry) ''''\<rparr> = exEntry"
    by (simp add: exEntry_def)
  have "UpdateService repoEngine exOS1 exMgr1 exApi '''' ''''
     = generateHTTPConfig repoEngine exOS1 exMgr1 exEntry"
    by (simp add: UpdateService_def updateHTTPService_def Let_def exApi_def r m,
        simp add: exMgr1_def r)
  also have "\<dots> = (None, exOS1\<lparr>files := (files exOS1)(''/etc/nginx/conf.d/api.conf'' \<mapsto>
                       \<lparr>content = exArtifact, modTime = clock exOS1\<rparr>)\<rparr>, exMgr1)"
    by (rule exGen) (simp_all add: exLoad1, simp add: exOS1_def exOS_def)
  finally show ?thesis by (simp add: exOS1_def exOS_def)
qed

lemma exStopEval: "exAfterStop = (exOS2, \<lparr>wconfig = exConfig, nginxMgr = exMgr1\<rparr>)"
proof -
  have "exAfterStop = updateNginxConfig repoEngine exOS1 \<lparr>wconfig = exConfig, nginxMgr = exMgr1\<rparr> exApi None"
    by (simp add: exAfterStop_def exStartEval handleEvent_def exStop_def handleContainerStop_def
        getContainerInfo_def exDocker_def exName exMatch exValid)
  also have "\<dots> = (exOS2, \<lparr>wconfig = exConfig, nginxMgr = exMgr1\<rparr>)"
    by (simp add: updateNginxConfig_def exUpd2 exReload1 exOS2_def, simp add: exOS1_def)
  finally show ?thesis .
qed

lemma exMembers1: "members exMgr1 exApi = [\<lparr>srvIP = ''192.168.31.100'', srvPort = ''33000/tcp''\<rparr>]"
  by (simp add: members_def exMgr1_def exApi_def exEntry_def)

lemma exLoadOld:
  "loadTemplate exOSold (HTTPTemplateFile (Global (config exMgr1))) =
     Inl (ErrTemplateNotExist ''conf/http.conf.tpl'')"
  by (simp add: loadTemplate_def exOSold_def os_Stat_def IsNotExist_def exMgr1_def exConfig_def
      exGlobal_def)

lemma exLoadOldStream:
  "loadTemplate exOSold (streamTemplateFile exMgr1 exMysql) =
     Inl (ErrTemplateNotExist ''conf/stream.conf.tpl'')"
  by (simp add: loadTemplate_def exOSold_def os_Stat_def IsNotExist_def exMgr1_def exConfig_def
      exGlobal_def streamTemplateFile_def exMysql_def)

lemma exUnpublishedPort: "getContainerPort exUnpublished exApi = ''9000/tcp''"
  by (simp add: getContainerPort_def exUnpublished_def exContainer_def exApi_def Itoa_9000
      firstHostPort_def Let_def)

lemma exUnpublishedIP: "getContainerIP (New exConfig) exUnpublished = ''192.168.31.100''"
  by (simp add: getContainerIP_def exUnpublished_def exContainer_def New_def exConfig_def exGlobal_def)

subsection \<open>The registry: replay of calls and the fields of an entry\<close>

text \<open>
  C1. Any sequence of \<open>UpdateService\<close> calls on an http or stream service, from the
  empty registry: the member list has at most one server per IP, and read as a map from
  IP to port it is the map obtained by replaying the calls with assignment for a call
  that carries an IP and a port and deletion of the IP for any other call.
\<close>

theorem upstream_members_replay:
  assumes "Type service = ''http'' \<or> Type service = ''stream''"
    and "runUpdates E service calls (os, NewManager cfg) = (os', m')"
  shows "distinct (map srvIP (members m' service)) \<and>
         map_of (kv (members m' service)) = replay calls Map.empty"
proof -
  have k: "keyed (NewManager cfg)" by (simp add: keyed_def NewManager_def)
  have e: "members (NewManager cfg) service = []" by (simp add: members_def NewManager_def)
  have d: "distinct (map srvIP (members (NewManager cfg) service))" by (simp add: e)
  from runUpdates_members[OF assms(1) k d assms(2)] show ?thesis by (simp add: e kv_def)
qed

theorem upstream_members_replay_witness:
  "(Type exApi = ''http'' \<or> Type exApi = ''stream'') \<and>
   distinct (map srvIP (members (snd (runUpdates repoEngine exApi exCalls (exOS, NewManager exConfig))) exApi)) \<and>
   map_of (kv (members (snd (runUpdates repoEngine exApi exCalls (exOS, NewManager exConfig))) exApi))
     = [''10.0.0.1'' \<mapsto> ''81/tcp'']"
proof -
  have t: "Type exApi = ''http'' \<or> Type exApi = ''stream''" by (simp add: exApi_def)
  have r: "replay exCalls Map.empty = [''10.0.0.1'' \<mapsto> ''81/tcp'']"
    by (simp add: exCalls_def fun_upd_twist)
  have p: "runUpdates repoEngine exApi exCalls (exOS, NewManager exConfig) =
        (fst (runUpdates repoEngine exApi exCalls (exOS, NewManager exConfig)),
         snd (runUpdates repoEngine exApi exCalls (exOS, NewManager exConfig)))" by simp
  from upstream_members_replay[OF t p] t r show ?thesis by simp
qed

text \<open>
  C9. An entry that exists is changed by \<open>UpdateService\<close> in its member list only,
  whatever the service descriptor passed and whatever configuration the manager holds by
  then: afterwards the entry is either the old one with the updated member list, or it is
  gone, which happens only on a removal that left no member. Domain, path and proxy
  configuration of an http entry, and listen port and SNI fields of a stream entry, are
  those of the old entry.
\<close>

theorem entry_fields_kept:
  "(Type service = ''http'' \<and> httpConfigs m (Name service) = Some e \<longrightarrow>
     (case httpConfigs (snd (snd (UpdateService E os (UpdateConfig m cfg) service ip port)))
             (Name service) of
        None \<Rightarrow> (ip = '''' \<or> port = '''') \<and> removeUpstreamServer (hcUpstream e) ip = []
      | Some e' \<Rightarrow> e' = e\<lparr>hcUpstream :=
          (if ip \<noteq> '''' \<and> port \<noteq> ''''
           then updateUpstreamServer (hcUpstream e) \<lparr>srvIP = ip, srvPort = port\<rparr>
           else removeUpstreamServer (hcUpstream e) ip)\<rparr>)) \<and>
   (Type service = ''stream'' \<and> streamConfigs m (Name service) = Some s \<longrightarrow>
     (case streamConfigs (snd (snd (UpdateService E os (UpdateConfig m cfg) service ip port)))
             (Name service) of
        None \<Rightarrow> (ip = '''' \<or> port = '''') \<and> removeUpstreamServer (scUpstream s) ip = []
      | Some s' \<Rightarrow> s' = s\<lparr>scUpstream :=
          (if ip \<noteq> '''' \<and> port \<noteq> ''''
           then updateUpstreamServer (scUpstream s) \<lparr>srvIP = ip, srvPort = port\<rparr>
           else removeUpstreamServer (scUpstream s) ip)\<rparr>))"
proof (intro conjI impI)
  assume a: "Type service = ''http'' \<and> httpConfigs m (Name service) = Some e"
  then have "httpConfigs (UpdateConfig m cfg) (Name service) = Some e"
    by (simp add: UpdateConfig_def)
  from updateHTTPService_entry[OF this, where E=E and os=os and ip=ip and port=port] a
  show "case httpConfigs (snd (snd (UpdateService E os (UpdateConfig m cfg) service ip port)))
             (Name service) of
        None \<Rightarrow> (ip = '''' \<or> port = '''') \<and> removeUpstreamServer (hcUpstream e) ip = []
      | Some e' \<Rightarrow> e' = e\<lparr>hcUpstream :=
          (if ip \<noteq> '''' \<and> port \<noteq> ''''
           then updateUpstreamServer (hcUpstream e) \<lparr>srvIP = ip, srvPort = port\<rparr>
           else removeUpstreamServer (hcUpstream e) ip)\<rparr>"
    by (simp add: UpdateService_def)
next
  assume a: "Type service = ''stream'' \<and> streamConfigs m (Name service) = Some s"
  then have "streamConfigs (UpdateConfig m cfg) (Name service) = Some s"
    by (simp add: UpdateConfig_def)
  from updateStreamService_entry[OF this, where E=E and os=os and ip=ip and port=port] a
  show "case streamConfigs (snd (snd (UpdateService E os (UpdateConfig m cfg) service ip port)))
             (Name service) of
        None \<Rightarrow> (ip = '''' \<or> port = '''') \<and> removeUpstreamServer (scUpstream s) ip = []
      | Some s' \<Rightarrow> s' = s\<lparr>scUpstream :=
          (if ip \<noteq> '''' \<and> port \<noteq> ''''
           then updateUpstreamServer (scUpstream s) \<lparr>srvIP = ip, srvPort = port\<rparr>
           else removeUpstreamServer (scUpstream s) ip)\<rparr>"
    by (simp add: UpdateService_def)
qed

theorem entry_fields_kept_witness:
  "Type exApiV2 = ''http'' \<and> httpConfigs exMgrBoth (Name exApiV2) = Some exEntry \<and>
   Domain exApiV2 = ''v2.example.com'' \<and> hcDomain exEntry = ''api.example.com'' \<and>
   httpConfigs (snd (snd (UpdateService repoEngine exOS (UpdateConfig exMgrBoth exConfigV2)
                            exApiV2 ''10.0.0.7'' ''8080/tcp''))) ''api'' =
     Some (exEntry\<lparr>hcUpstream := [\<lparr>srvIP = ''192.168.31.100'', srvPort = ''33000/tcp''\<rparr>,
                                    \<lparr>srvIP = ''10.0.0.7'', srvPort = ''8080/tcp''\<rparr>]\<rparr>) \<and>
   Type exMysqlV2 = ''stream'' \<and> streamConfigs exMgrBoth (Name exMysqlV2) = Some exMysql \<and>
   ListenPort exMysqlV2 = 3307 \<and> scListenPort exMysql = 3306 \<and>
   streamConfigs (snd (snd (UpdateService repoEngine exOS (UpdateConfig exMgrBoth exConfigV2)
                              exMysqlV2 ''192.168.31.100'' ''3307/tcp''))) ''mysql'' =
     Some (exMysql\<lparr>scUpstream := [\<lparr>srvIP = ''192.168.31.100'', srvPort = ''3307/tcp''\<rparr>]\<rparr>)"
proof -
  have a: "Type exApiV2 = ''http''" "Name exApiV2 = ''api''" "Domain exApiV2 = ''v2.example.com''"
    by (simp_all add: exApiV2_def exApi_def)
  have b: "httpConfigs exMgrBoth ''api'' = Some exEntry" "hcDomain exEntry = ''api.example.com''"
    by (simp_all add: exMgrBoth_def exEntry_def)
  have c: "Type exMysqlV2 = ''stream''" "Name exMysqlV2 = ''mysql''" "ListenPort exMysqlV2 = 3307"
    by (simp_all add: exMysqlV2_def exApi_def)
  have d: "streamConfigs exMgrBoth ''mysql'' = Some exMysql" "scListenPort exMysql = 3306"
    by (simp_all add: exMgrBoth_def exMysql_def)
  have u1: "updateUpstreamServer (hcUpstream exEntry) \<lparr>srvIP = ''10.0.0.7'', srvPort = ''8080/tcp''\<rparr>
      = [\<lparr>srvIP = ''192.168.31.100'', srvPort = ''33000/tcp''\<rparr>,
         \<lparr>srvIP = ''10.0.0.7'', srvPort = ''8080/tcp''\<rparr>]"
    by (simp add: exEntry_def)
  have u2: "updateUpstreamServer (scUpstream exMysql) \<lparr>srvIP = ''192.168.31.100'', srvPort = ''3307/tcp''\<rparr>
      = [\<lparr>srvIP = ''192.168.31.100'', srvPort = ''3307/tcp''\<rparr>]"
    by (simp add: exMysql_def)
  note H = entry_fields_kept[where service=exApiV2 and m=exMgrBoth and e=exEntry
      and E=repoEngine and os=exOS and cfg=exConfigV2 and ip="''10.0.0.7''" and port="''8080/tcp''",
      THEN conjunct1, unfolded a(1,2)]
  note S = entry_fields_kept[where service=exMysqlV2 and m=exMgrBoth and s=exMysql
      and E=repoEngine and os=exOS and cfg=exConfigV2 and ip="''192.168.31.100''"
      and port="''3307/tcp''", THEN conjunct2, unfolded c(1,2)]
  have h: "httpConfigs (snd (snd (UpdateService repoEngine exOS (UpdateConfig exMgrBoth exConfigV2)
                            exApiV2 ''10.0.0.7'' ''8080/tcp''))) ''api'' =
     Some (exEntry\<lparr>hcUpstream := [\<lparr>srvIP = ''192.168.31.100'', srvPort = ''33000/tcp''\<rparr>,
                                    \<lparr>srvIP = ''10.0.0.7'', srvPort = ''8080/tcp''\<rparr>]\<rparr>)"
    using H b(1) by (simp add: u1 split: option.splits)
  have s: "streamConfigs (snd (snd (UpdateService repoEngine exOS (UpdateConfig exMgrBoth exConfigV2)
                              exMysqlV2 ''192.168.31.100'' ''3307/tcp''))) ''mysql'' =
     Some (exMysql\<lparr>scUpstream := [\<lparr>srvIP = ''192.168.31.100'', srvPort = ''3307/tcp''\<rparr>]\<rparr>)"
    using S d(1) by (simp add: u2 split: option.splits)
  show ?thesis
    using a b c d h s by simp
qed

subsection \<open>Materialization\<close>

text \<open>
  C7, as the code has it. For an http entry, and for a stream entry without SNI routing,
  whose member list is empty, and a path on which removal is not refused:
  materialization returns no error, the artifact is absent afterwards, every other file
  is as before, the entry is dropped, and materializing again from the resulting state
  returns no error and changes nothing.
\<close>

theorem empty_members_delete_idempotent:
  "(hcUpstream h = [] \<and>
    \<not> denied os (filepath_Join (NginxConfigDir (Global (config m))) (hcServiceName h @ ''.conf'')) \<longrightarrow>
    fst (generateHTTPConfig E os m h) = None \<and>
    files (fst (snd (generateHTTPConfig E os m h)))
      (filepath_Join (NginxConfigDir (Global (config m))) (hcServiceName h @ ''.conf'')) = None \<and>
    (\<forall>q. q \<noteq> filepath_Join (NginxConfigDir (Global (config m))) (hcServiceName h @ ''.conf'') \<longrightarrow>
         files (fst (snd (generateHTTPConfig E os m h))) q = files os q) \<and>
    httpConfigs (snd (snd (generateHTTPConfig E os m h))) (hcServiceName h) = None \<and>
    generateHTTPConfig E (fst (snd (generateHTTPConfig E os m h)))
        (snd (snd (generateHTTPConfig E os m h))) h =
      (None, snd (generateHTTPConfig E os m h))) \<and>
   (scUpstream s = [] \<and> \<not> scEnableSNI s \<and>
    \<not> denied os (filepath_Join (StreamConfigDir (Global (config m))) (scServiceName s @ ''.conf'')) \<longrightarrow>
    fst (generateStreamConfig E os m s) = None \<and>
    files (fst (snd (generateStreamConfig E os m s)))
      (filepath_Join (StreamConfigDir (Global (config m))) (scServiceName s @ ''.conf'')) = None \<and>
    (\<forall>q. q \<noteq> filepath_Join (StreamConfigDir (Global (config m))) (scServiceName s @ ''.conf'') \<longrightarrow>
         files (fst (snd (generateStreamConfig E os m s))) q = files os q) \<and>
    streamConfigs (snd (snd (generateStreamConfig E os m s))) (scServiceName s) = None \<and>
    generateStreamConfig E (fst (snd (generateStreamConfig E os m s)))
        (snd (snd (generateStreamConfig E os m s))) s =
      (None, snd (generateStreamConfig E os m s)))"
proof (intro conjI impI)
  let ?p = "filepath_Join (NginxConfigDir (Global (config m))) (hcServiceName h @ ''.conf'')"
  let ?os' = "(case files os ?p of None \<Rightarrow> os | Some f \<Rightarrow> os\<lparr>files := (files os)(?p := None)\<rparr>)"
  let ?m' = "m\<lparr>httpConfigs := (httpConfigs m)(hcServiceName h := None)\<rparr>"
  assume a: "hcUpstream h = [] \<and> \<not> denied os ?p"
  then have g: "generateHTTPConfig E os m h = (None, ?os', ?m')"
    using generateHTTPConfig_delete[of h os m E] by simp
  have d: "\<not> denied ?os' ?p" "files ?os' ?p = None"
    using a by (auto split: option.splits)
  have c: "config ?m' = config m" by simp
  have "generateHTTPConfig E ?os' ?m' h =
     (None, (case files ?os' ?p of None \<Rightarrow> ?os' | Some f \<Rightarrow> ?os'\<lparr>files := (files ?os')(?p := None)\<rparr>),
      ?m'\<lparr>httpConfigs := (httpConfigs ?m')(hcServiceName h := None)\<rparr>)"
    using generateHTTPConfig_delete[of h ?os' ?m' E] a d(1) unfolding c by blast
  then have g2: "generateHTTPConfig E ?os' ?m' h = (None, ?os', ?m')"
    by (simp only: d(2) option.case) simp
  show "fst (generateHTTPConfig E os m h) = None" by (simp only: g fst_conv)
  show "files (fst (snd (generateHTTPConfig E os m h))) ?p = None"
    by (simp only: g fst_conv snd_conv d(2))
  show "\<forall>q. q \<noteq> ?p \<longrightarrow> files (fst (snd (generateHTTPConfig E os m h))) q = files os q"
    unfolding g by (auto split: option.splits)
  show "httpConfigs (snd (snd (generateHTTPConfig E os m h))) (hcServiceName h) = None"
    unfolding g by simp
  show "generateHTTPConfig E (fst (snd (generateHTTPConfig E os m h)))
        (snd (snd (generateHTTPConfig E os m h))) h =
      (None, snd (generateHTTPConfig E os m h))"
    by (simp only: g fst_conv snd_conv g2)
next
  let ?p = "filepath_Join (StreamConfigDir (Global (config m))) (scServiceName s @ ''.conf'')"
  let ?os' = "(case files os ?p of None \<Rightarrow> os | Some f \<Rightarrow> os\<lparr>files := (files os)(?p := None)\<rparr>)"
  let ?m' = "m\<lparr>streamConfigs := (streamConfigs m)(scServiceName s := None)\<rparr>"
  assume a: "scUpstream s = [] \<and> \<not> scEnableSNI s \<and> \<not> denied os ?p"
  then have g: "generateStreamConfig E os m s = (None, ?os', ?m')"
    using generateStreamConfig_delete[of s os m E] by simp
  have d: "\<not> denied ?os' ?p" "files ?os' ?p = None"
    using a by (auto split: option.splits)
  have c: "config ?m' = config m" by simp
  have "generateStreamConfig E ?os' ?m' s =
     (None, (case files ?os' ?p of None \<Rightarrow> ?os' | Some f \<Rightarrow> ?os'\<lparr>files := (files ?os')(?p := None)\<rparr>),
      ?m'\<lparr>streamConfigs := (streamConfigs ?m')(scServiceName s := None)\<rparr>)"
    using generateStreamConfig_delete[of s ?os' ?m' E] a d(1) unfolding c by blast
  then have g2: "generateStreamConfig E ?os' ?m' s = (None, ?os', ?m')"
    by (simp only: d(2) option.case) simp
  show "fst (generateStreamConfig E os m s) = None" by (simp only: g fst_conv)
  show "files (fst (snd (generateStreamConfig E os m s))) ?p = None"
    by (simp only: g fst_conv snd_conv d(2))
  show "\<forall>q. q \<noteq> ?p \<longrightarrow> files (fst (snd (generateStreamConfig E os m s))) q = files os q"
    unfolding g by (auto split: option.splits)
  show "streamConfigs (snd (snd (generateStreamConfig E os m s))) (scServiceName s) = None"
    unfolding g by simp
  show "generateStreamConfig E (fst (snd (generateStreamConfig E os m s)))
        (snd (snd (generateStreamConfig E os m s))) s =
      (None, snd (generateStreamConfig E os m s))"
    by (simp only: g fst_conv snd_conv g2)
qed

theorem empty_members_delete_idempotent_witness:
  "hcUpstream exEntry0 = [] \<and>
   \<not> denied exOSold ''/etc/nginx/conf.d/api.conf'' \<and>
   files exOSold ''/etc/nginx/conf.d/api.conf'' = Some \<lparr>content = exArtifact, modTime = 3\<rparr> \<and>
   fst (generateHTTPConfig repoEngine exOSold exMgr0 exEntry0) = None \<and>
   files (fst (snd (generateHTTPConfig repoEngine exOSold exMgr0 exEntry0)))
     ''/etc/nginx/conf.d/api.conf'' = None \<and>
   httpConfigs (snd (snd (generateHTTPConfig repoEngine exOSold exMgr0 exEntry0))) ''api'' = None \<and>
   generateHTTPConfig repoEngine (fst (snd (generateHTTPConfig repoEngine exOSold exMgr0 exEntry0)))
        (snd (snd (generateHTTPConfig repoEngine exOSold exMgr0 exEntry0))) exEntry0 =
      (None, snd (generateHTTPConfig repoEngine exOSold exMgr0 exEntry0)) \<and>
   scUpstream exMysql0 = [] \<and> \<not> scEnableSNI exMysql0 \<and>
   \<not> denied exOSold ''/etc/nginx/stream.d/mysql.conf'' \<and>
   files exOSold ''/etc/nginx/stream.d/mysql.conf'' = None \<and>
   fst (generateStreamConfig repoEngine exOSold exMgr0 exMysql0) = None \<and>
   files (fst (snd (generateStreamConfig repoEngine exOSold exMgr0 exMysql0)))
     ''/etc/nginx/stream.d/mysql.conf'' = None \<and>
   streamConfigs (snd (snd (generateStreamConfig repoEngine exOSold exMgr0 exMysql0))) ''mysql'' = None \<and>
   generateStreamConfig repoEngine (fst (snd (generateStreamConfig repoEngine exOSold exMgr0 exMysql0)))
        (snd (snd (generateStreamConfig repoEngine exOSold exMgr0 exMysql0))) exMysql0 =
      (None, snd (generateStreamConfig repoEngine exOSold exMgr0 exMysql0))"
proof -
  have p: "filepath_Join (NginxConfigDir (Global (config exMgr0))) ''api.conf''
        = ''/etc/nginx/conf.d/api.conf''"
    by (simp add: filepath_Join_def exMgr0_def exConfig_def exGlobal_def)
  have q: "filepath_Join (StreamConfigDir (Global (config exMgr0))) ''mysql.conf''
        = ''/etc/nginx/stream.d/mysql.conf''"
    by (simp add: filepath_Join_def exMgr0_def exConfig_def exGlobal_def)
  have h: "hcUpstream exEntry0 = []" "hcServiceName exEntry0 = ''api''"
    by (simp_all add: exEntry0_def exEntry_def)
  have s: "scUpstream exMysql0 = []" "\<not> scEnableSNI exMysql0" "scServiceName exMysql0 = ''mysql''"
    by (simp_all add: exMysql0_def exMysql_def)
  have d: "\<And>path. \<not> denied exOSold path" by (simp add: exOSold_def)
  have f: "files exOSold ''/etc/nginx/conf.d/api.conf'' = Some \<lparr>content = exArtifact, modTime = 3\<rparr>"
    "files exOSold ''/etc/nginx/stream.d/mysql.conf'' = None"
    by (simp_all add: exOSold_def)
  note T = empty_members_delete_idempotent[where h=exEntry0 and os=exOSold and m=exMgr0
      and E=repoEngine and s=exMysql0]
  from T show ?thesis by (simp add: h s p q d f)
qed

text \<open>
  C7 as stated fails for a stream entry with SNI routing: with no member, materialization
  writes the artifact and keeps the entry. (No SNI template is installed in the example,
  so the text written is the empty one.)
\<close>

theorem sni_entry_without_members_is_written:
  "scUpstream exTls = [] \<and>
   files exOS ''/etc/nginx/stream.d/tls.conf'' = None \<and>
   fst (generateStreamConfig repoEngine exOS exMgrTls exTls) = None \<and>
   files (fst (snd (generateStreamConfig repoEngine exOS exMgrTls exTls)))
     ''/etc/nginx/stream.d/tls.conf'' = Some \<lparr>content = '''', modTime = 5\<rparr> \<and>
   streamConfigs (snd (snd (generateStreamConfig repoEngine exOS exMgrTls exTls))) ''tls'' = Some exTls"
proof -
  have q: "filepath_Join (StreamConfigDir (Global (config exMgrTls))) (scServiceName exTls @ ''.conf'')
        = ''/etc/nginx/stream.d/tls.conf''"
    by (simp add: filepath_Join_def exMgrTls_def exTls_def exConfig_def exGlobal_def)
  have b: "buildStreamConfigContent repoEngine exOS exMgrTls exTls = ''''"
    by (simp add: buildStreamConfigContent_def repoEngine_def split: sum.splits)
  have e: "scUpstream exTls = []" "scEnableSNI exTls" by (simp_all add: exTls_def)
  have d: "\<not> denied exOS ''/etc/nginx/stream.d/tls.conf''" "clock exOS = 5"
    by (simp_all add: exOS_def)
  have g: "generateStreamConfig repoEngine exOS exMgrTls exTls =
       (None, exOS\<lparr>files := (files exOS)(''/etc/nginx/stream.d/tls.conf'' \<mapsto>
                       \<lparr>content = [], modTime = 5\<rparr>)\<rparr>, exMgrTls)"
    using generateStreamConfig_write[of exTls repoEngine exOS exMgrTls] e
    by (simp add: q b d)
  show ?thesis
    by (simp add: g e, simp add: exOS_def exMgrTls_def)
qed

text \<open>
  C3, as the code has it. When rendering fails (the template cannot be loaded, or the
  engine fails to parse or execute it) the build function yields the empty text, and
  materialization of a service with members goes on to write it: unless the write itself
  is refused, the artifact becomes an empty file and no error is returned. The same holds
  for a stream entry that is materialized by a write.
\<close>

theorem render_failure_writes_empty_text:
  "(hcUpstream h \<noteq> [] \<and>
    (case loadTemplate os (HTTPTemplateFile (Global (config m))) of
       Inl e \<Rightarrow> True
     | Inr t \<Rightarrow> execHTTP E t (httpTemplateData m h) = None) \<longrightarrow>
    buildHTTPConfigContent E os m h = '''' \<and>
    generateHTTPConfig E os m h =
      (let p = filepath_Join (NginxConfigDir (Global (config m))) (hcServiceName h @ ''.conf'')
       in if denied os p then (Some (ErrWriteHTTP (hcServiceName h @ ''.conf'')), os, m)
          else (None, os\<lparr>files := (files os)(p \<mapsto> \<lparr>content = '''', modTime = clock os\<rparr>)\<rparr>, m))) \<and>
   ((scUpstream s \<noteq> [] \<or> scEnableSNI s) \<and>
    (case loadTemplate os (streamTemplateFile m s) of
       Inl e \<Rightarrow> True
     | Inr t \<Rightarrow> execStream E t (streamTemplateData s) = None) \<longrightarrow>
    buildStreamConfigContent E os m s = '''' \<and>
    generateStreamConfig E os m s =
      (let p = filepath_Join (StreamConfigDir (Global (config m))) (scServiceName s @ ''.conf'')
       in if denied os p then (Some (ErrWriteStream (scServiceName s @ ''.conf'')), os, m)
          else (None, os\<lparr>files := (files os)(p \<mapsto> \<lparr>content = '''', modTime = clock os\<rparr>)\<rparr>, m)))"
proof (intro conjI impI)
  assume a: "hcUpstream h \<noteq> [] \<and>
    (case loadTemplate os (HTTPTemplateFile (Global (config m))) of
       Inl e \<Rightarrow> True
     | Inr t \<Rightarrow> execHTTP E t (httpTemplateData m h) = None)"
  then show b: "buildHTTPConfigContent E os m h = ''''"
    by (auto simp: buildHTTPConfigContent_def Let_def split: sum.splits)
  from a have "hcUpstream h \<noteq> []" by simp
  from generateHTTPConfig_write[OF this, of E os m]
  show "generateHTTPConfig E os m h =
      (let p = filepath_Join (NginxConfigDir (Global (config m))) (hcServiceName h @ ''.conf'')
       in if denied os p then (Some (ErrWriteHTTP (hcServiceName h @ ''.conf'')), os, m)
          else (None, os\<lparr>files := (files os)(p \<mapsto> \<lparr>content = '''', modTime = clock os\<rparr>)\<rparr>, m))"
    by (simp only: b)
next
  assume a: "(scUpstream s \<noteq> [] \<or> scEnableSNI s) \<and>
    (case loadTemplate os (streamTemplateFile m s) of
       Inl e \<Rightarrow> True
     | Inr t \<Rightarrow> execStream E t (streamTemplateData s) = None)"
  then show b: "buildStreamConfigContent E os m s = ''''"
    by (auto simp: buildStreamConfigContent_def Let_def split: sum.splits)
  from a have "scUpstream s \<noteq> [] \<or> scEnableSNI s" by simp
  from generateStreamConfig_write[OF this, of E os m]
  show "generateStreamConfig E os m s =
      (let p = filepath_Join (StreamConfigDir (Global (config m))) (scServiceName s @ ''.conf'')
       in if denied os p then (Some (ErrWriteStream (scServiceName s @ ''.conf'')), os, m)
          else (None, os\<lparr>files := (files os)(p \<mapsto> \<lparr>content = '''', modTime = clock os\<rparr>)\<rparr>, m))"
    by (simp only: b)
qed

theorem render_failure_writes_empty_text_witness:
  "hcUpstream exEntry \<noteq> [] \<and>
   loadTemplate exOSold (HTTPTemplateFile (Global (config exMgr1))) =
     Inl (ErrTemplateNotExist ''conf/http.conf.tpl'') \<and>
   buildHTTPConfigContent repoEngine exOSold exMgr1 exEntry = '''' \<and>
   generateHTTPConfig repoEngine exOSold exMgr1 exEntry =
     (None, exOSold\<lparr>files := (files exOSold)(''/etc/nginx/conf.d/api.conf'' \<mapsto>
                        \<lparr>content = '''', modTime = 7\<rparr>)\<rparr>, exMgr1) \<and>
   scUpstream exMysql \<noteq> [] \<and>
   loadTemplate exOSold (streamTemplateFile exMgr1 exMysql) =
     Inl (ErrTemplateNotExist ''conf/stream.conf.tpl'') \<and>
   buildStreamConfigContent repoEngine exOSold exMgr1 exMysql = '''' \<and>
   generateStreamConfig repoEngine exOSold exMgr1 exMysql =
     (None, exOSold\<lparr>files := (files exOSold)(''/etc/nginx/stream.d/mysql.conf'' \<mapsto>
                        \<lparr>content = '''', modTime = 7\<rparr>)\<rparr>, exMgr1)"
proof -
  have u: "hcUpstream exEntry \<noteq> []" by (simp add: exEntry_def)
  have v: "scUpstream exMysql \<noteq> []" by (simp add: exMysql_def)
  have p: "filepath_Join (NginxConfigDir (Global (config exMgr1))) (hcServiceName exEntry @ ''.conf'')
        = ''/etc/nginx/conf.d/api.conf''"
    by (simp add: filepath_Join_def exMgr1_def exEntry_def exConfig_def exGlobal_def)
  have q: "filepath_Join (StreamConfigDir (Global (config exMgr1))) (scServiceName exMysql @ ''.conf'')
        = ''/etc/nginx/stream.d/mysql.conf''"
    by (simp add: filepath_Join_def exMgr1_def exMysql_def exConfig_def exGlobal_def)
  have d: "\<And>path. \<not> denied exOSold path" "clock exOSold = 7" by (simp_all add: exOSold_def)
  show ?thesis
    using render_failure_writes_empty_text[where h=exEntry and os=exOSold and m=exMgr1
        and E=repoEngine and s=exMysql] u v
    by (simp add: exLoadOld exLoadOldStream p q d)
qed

text \<open>
  C3 as stated fails when the template file is missing: the artifact of \<open>api\<close> held
  the rendered text before, and holds the empty text after the materialization.
\<close>

theorem render_failure_overwrites_artifact:
  "hcUpstream exEntry \<noteq> [] \<and>
   loadTemplate exOSold (HTTPTemplateFile (Global (config exMgr1))) =
     Inl (ErrTemplateNotExist ''conf/http.conf.tpl'') \<and>
   files exOSold ''/etc/nginx/conf.d/api.conf'' = Some \<lparr>content = exArtifact, modTime = 3\<rparr> \<and>
   fst (generateHTTPConfig repoEngine exOSold exMgr1 exEntry) = None \<and>
   files (fst (snd (generateHTTPConfig repoEngine exOSold exMgr1 exEntry)))
     ''/etc/nginx/conf.d/api.conf'' = Some \<lparr>content = '''', modTime = 7\<rparr> \<and>
   exArtifact \<noteq> ''''"
proof -
  have b: "buildHTTPConfigContent repoEngine exOSold exMgr1 exEntry = ''''"
    by (simp add: buildHTTPConfigContent_def exLoadOld)
  have p: "filepath_Join (NginxConfigDir (Global (config exMgr1))) (hcServiceName exEntry @ ''.conf'')
        = ''/etc/nginx/conf.d/api.conf''"
    by (simp add: filepath_Join_def exMgr1_def exEntry_def exConfig_def exGlobal_def)
  have u: "hcUpstream exEntry \<noteq> []" by (simp add: exEntry_def)
  have g: "generateHTTPConfig repoEngine exOSold exMgr1 exEntry =
     (None, exOSold\<lparr>files := (files exOSold)(''/etc/nginx/conf.d/api.conf'' \<mapsto>
                        \<lparr>content = '''', modTime = 7\<rparr>)\<rparr>, exMgr1)"
    using u by (simp add: generateHTTPConfig_def b p os_WriteFile_def, simp add: exOSold_def)
  have a: "exArtifact \<noteq> ''''" by (simp add: exArtifact_def)
  show ?thesis
    by (simp add: g u exLoadOld a, simp add: exOSold_def)
qed

text \<open>
  C5. The artifact written for service \<open>api\<close>, whose declared upstream name is
  \<open>api_backend\<close>: the upstream block and the \<open>proxy_pass\<close> line carry the
  service name \<open>api\<close>. The declared upstream name is in no record the template is
  executed on.
\<close>

theorem artifact_names_upstream_by_service_name:
  "UpstreamName exApi = ''api_backend'' \<and>
   files (fst exAfterStart) ''/etc/nginx/conf.d/api.conf'' =
     Some \<lparr>content = exArtifact, modTime = 5\<rparr> \<and>
   occursIn ''upstream api {'' exArtifact \<and>
   occursIn ''proxy_pass http://api/;'' exArtifact \<and>
   \<not> occursIn ''api_backend'' exArtifact"
  by (simp add: exStartEval exOS1_def exApi_def, simp add: exArtifact_def)

text \<open>
  Behind C5: the declared upstream name takes no part in \<open>UpdateService\<close>, so no
  artifact can depend on it.
\<close>

lemma UpdateService_ignores_UpstreamName:
  "UpdateService E os m (service\<lparr>UpstreamName := u\<rparr>) ip port = UpdateService E os m service ip port"
  by (simp add: UpdateService_def updateHTTPService_def updateStreamService_def
      cong: option.case_cong)

subsection \<open>Address resolution\<close>

lemma getContainerPort_not_empty: "getContainerPort c service \<noteq> ''''"
proof -
  define T where "T = Itoa (if Type service = ''http'' then Port service
                        else if Type service = ''stream'' then ContainerPort service else 0)"
  define A where "A = (if map_of (Networks c) ''bridge'' \<noteq> None
                       then firstHostPort (Ports c (T @ ''/tcp'')) else None)"
  define B where "B = (if map_of (Networks c) ''bridge'' \<noteq> None
                       then firstHostPort (Ports c (T @ ''/udp'')) else None)"
  have g: "getContainerPort c service =
     (if map_of (Networks c) ''host'' \<noteq> None then T @ ''/tcp''
      else case A of Some hostPort \<Rightarrow> hostPort @ ''/tcp''
           | None \<Rightarrow> (case B of Some hostPort \<Rightarrow> hostPort @ ''/udp''
                 | None \<Rightarrow> if Ports c (T @ ''/tcp'') \<noteq> None then T @ ''/tcp''
                           else if Ports c (T @ ''/udp'') \<noteq> None then T @ ''/udp''
                           else T @ ''/tcp''))"
    unfolding getContainerPort_def Let_def T_def A_def B_def ..
  show ?thesis
    unfolding g by (cases A; cases B; simp)
qed

lemma updateNginxConfig_mgr:
  "nginxMgr (snd (updateNginxConfig E os w service (Some c))) =
     (if getContainerIP w c = '''' then nginxMgr w
      else snd (snd (UpdateService E os (nginxMgr w) service (getContainerIP w c)
                       (getContainerPort c service))))"
proof -
  obtain err os' m' where u: "UpdateService E os (nginxMgr w) service (getContainerIP w c)
                       (getContainerPort c service) = (err, os', m')"
    by (cases "UpdateService E os (nginxMgr w) service (getContainerIP w c) (getContainerPort c service)")
  obtain rerr os'' where r: "Manager_Reload os' m' = (rerr, os'')"
    by (cases "Manager_Reload os' m'")
  show ?thesis
    by (simp add: updateNginxConfig_def getContainerPort_not_empty u r)
qed

lemma getContainerPort_bridge:
  assumes "map_of (Networks c) ''bridge'' \<noteq> None" and "map_of (Networks c) ''host'' = None"
    and "T = Itoa (if Type service = ''http'' then Port service
                   else if Type service = ''stream'' then ContainerPort service else 0)"
  shows "getContainerPort c service =
     (case firstHostPort (Ports c (T @ ''/tcp'')) of
        Some hostPort \<Rightarrow> hostPort @ ''/tcp''
      | None \<Rightarrow>
          (case firstHostPort (Ports c (T @ ''/udp'')) of
             Some hostPort \<Rightarrow> hostPort @ ''/udp''
           | None \<Rightarrow> if Ports c (T @ ''/tcp'') \<noteq> None then T @ ''/tcp''
                     else if Ports c (T @ ''/udp'') \<noteq> None then T @ ''/udp''
                     else T @ ''/tcp''))"
  unfolding getContainerPort_def Let_def assms(3)[symmetric] using assms(1,2) by simp

text \<open>
  What the port resolution returns for a container on the default bridge network and not
  on the host network, with \<open>T\<close> the declared target port in decimal: the host port
  of a first binding of \<open>T/tcp\<close>, else of \<open>T/udp\<close>, and with neither binding the
  target port itself. It never returns the empty port, so the caller's branch for an empty
  port is never taken.
\<close>

lemma getContainerPort_bridge_outcomes:
  assumes "map_of (Networks c) ''bridge'' \<noteq> None" and "map_of (Networks c) ''host'' = None"
    and "T = Itoa (if Type service = ''http'' then Port service
                   else if Type service = ''stream'' then ContainerPort service else 0)"
  shows "getContainerPort c service \<noteq> '''' \<and>
    (\<forall>b bs. Ports c (T @ ''/tcp'') = Some (b # bs) \<longrightarrow>
       getContainerPort c service = pbHostPort b @ ''/tcp'') \<and>
    (\<forall>b bs. (Ports c (T @ ''/tcp'') = None \<or> Ports c (T @ ''/tcp'') = Some []) \<and>
            Ports c (T @ ''/udp'') = Some (b # bs) \<longrightarrow>
       getContainerPort c service = pbHostPort b @ ''/udp'') \<and>
    ((Ports c (T @ ''/tcp'') = None \<or> Ports c (T @ ''/tcp'') = Some []) \<and>
     (Ports c (T @ ''/udp'') = None \<or> Ports c (T @ ''/udp'') = Some []) \<longrightarrow>
       getContainerPort c service =
         (if Ports c (T @ ''/tcp'') = None \<and> Ports c (T @ ''/udp'') \<noteq> None then T @ ''/udp''
          else T @ ''/tcp'')) \<and>
    (getContainerIP w c \<noteq> '''' \<longrightarrow>
       nginxMgr (snd (updateNginxConfig E os w service (Some c))) =
         snd (snd (UpdateService E os (nginxMgr w) service (getContainerIP w c)
                     (getContainerPort c service))))"
proof (intro conjI allI impI)
  show "getContainerPort c service \<noteq> ''''" by (rule getContainerPort_not_empty)
next
  fix b bs assume "Ports c (T @ ''/tcp'') = Some (b # bs)"
  then show "getContainerPort c service = pbHostPort b @ ''/tcp''"
    by (simp add: getContainerPort_bridge[OF assms] firstHostPort_def)
next
  fix b bs
  assume "(Ports c (T @ ''/tcp'') = None \<or> Ports c (T @ ''/tcp'') = Some []) \<and>
            Ports c (T @ ''/udp'') = Some (b # bs)"
  then show "getContainerPort c service = pbHostPort b @ ''/udp''"
    by (auto simp: getContainerPort_bridge[OF assms] firstHostPort_def)
next
  assume "(Ports c (T @ ''/tcp'') = None \<or> Ports c (T @ ''/tcp'') = Some []) \<and>
     (Ports c (T @ ''/udp'') = None \<or> Ports c (T @ ''/udp'') = Some [])"
  then show "getContainerPort c service =
         (if Ports c (T @ ''/tcp'') = None \<and> Ports c (T @ ''/udp'') \<noteq> None then T @ ''/udp''
          else T @ ''/tcp'')"
    by (auto simp: getContainerPort_bridge[OF assms] firstHostPort_def)
next
  assume "getContainerIP w c \<noteq> ''''"
  then show "nginxMgr (snd (updateNginxConfig E os w service (Some c))) =
         snd (snd (UpdateService E os (nginxMgr w) service (getContainerIP w c)
                     (getContainerPort c service)))"
    by (simp add: updateNginxConfig_mgr)
qed

text \<open>
  C4. The claim against the code, on a bridge container. With port 9000 published on host
  port 33000 the resolution returns \<open>33000/tcp\<close>, as the claim says. With no
  binding of port 9000 the claim says the resolution fails and the caller skips the
  registry update; the code returns \<open>9000/tcp\<close>, the container's own port, next to
  the host IP, and the start event registers that member.
\<close>

theorem unbound_bridge_port_is_registered:
  "getContainerPort exContainer exApi = ''33000/tcp'' \<and>
   map_of (Networks exUnpublished) ''bridge'' \<noteq> None \<and>
   Ports exUnpublished ''9000/tcp'' = None \<and> Ports exUnpublished ''9000/udp'' = None \<and>
   getContainerIP (New exConfig) exUnpublished = ''192.168.31.100'' \<and>
   getContainerPort exUnpublished exApi = ''9000/tcp'' \<and>
   members (nginxMgr (snd (handleContainerStart repoEngine exDocker2 exOS (New exConfig) ''c2''))) exApi =
     [\<lparr>srvIP = ''192.168.31.100'', srvPort = ''9000/tcp''\<rparr>]"
proof -
  have n: "map_of (Networks exUnpublished) ''bridge'' \<noteq> None"
    "Ports exUnpublished ''9000/tcp'' = None" "Ports exUnpublished ''9000/udp'' = None"
    "cName exUnpublished = ''/my-api''"
    by (simp_all add: exUnpublished_def exContainer_def)
  have h: "handleContainerStart repoEngine exDocker2 exOS (New exConfig) ''c2'' =
      updateNginxConfig repoEngine exOS (New exConfig) exApi (Some exUnpublished)"
    by (simp add: handleContainerStart_def getContainerInfo_def exDocker2_def n(4) New_def
        exMatch exValid)
  obtain err os' m' where u: "UpdateService repoEngine exOS (NewManager exConfig) exApi
      ''192.168.31.100'' ''9000/tcp'' = (err, os', m')"
    by (cases "UpdateService repoEngine exOS (NewManager exConfig) exApi ''192.168.31.100'' ''9000/tcp''")
  have k: "keyed (NewManager exConfig)" by (simp add: keyed_def NewManager_def)
  have t: "Type exApi = ''http'' \<or> Type exApi = ''stream''" by (simp add: exApi_def)
  have e: "members (NewManager exConfig) exApi = []" by (simp add: members_def NewManager_def)
  from UpdateService_members[OF k t u]
  have m: "members m' exApi = [\<lparr>srvIP = ''192.168.31.100'', srvPort = ''9000/tcp''\<rparr>]"
    by (simp add: e)
  have "nginxMgr (snd (handleContainerStart repoEngine exDocker2 exOS (New exConfig) ''c2'')) = m'"
    by (simp add: h updateNginxConfig_mgr exUnpublishedIP exUnpublishedPort, simp add: New_def u)
  then show ?thesis using n m exUnpublishedPort exUnpublishedIP exPort by simp
qed

subsection \<open>Stop events\<close>

text \<open>
  C2. The scenario of the claim, run on the code: the container \<open>my-api\<close> of service
  \<open>api\<close> starts on the bridge with host port 33000 and is then stopped. After the
  start the registry holds the one member and the artifact is written. After the stop the
  member is still there and the artifact still holds the rendered text: the stop path
  calls \<open>UpdateService\<close> with the empty IP, which no member has.
\<close>

theorem stop_after_start_keeps_member:
  "members (nginxMgr (snd exAfterStart)) exApi =
     [\<lparr>srvIP = ''192.168.31.100'', srvPort = ''33000/tcp''\<rparr>] \<and>
   members (nginxMgr (snd exAfterStop)) exApi =
     [\<lparr>srvIP = ''192.168.31.100'', srvPort = ''33000/tcp''\<rparr>] \<and>
   files (fst exAfterStop) ''/etc/nginx/conf.d/api.conf'' =
     Some \<lparr>content = exArtifact, modTime = 5\<rparr>"
  by (simp add: exStartEval exStopEval exMembers1, simp add: exOS2_def exOS1_def)

text \<open>
  Behind C2: the call the stop path makes, with the empty IP, leaves the members as they
  are whenever no member has the empty IP; and no sequence of calls from the empty
  registry produces such a member.
\<close>

lemma stop_call_keeps_members:
  assumes "keyed m" and "Type service = ''http'' \<or> Type service = ''stream''"
    and "'''' \<notin> srvIP ` set (members m service)"
    and "UpdateService E os m service '''' '''' = (err, os', m')"
  shows "members m' service = members m service"
  using UpdateService_members[OF assms(1,2,4)] removeUpstreamServer_absent[OF assms(3)]
  by simp

lemma runUpdates_no_empty_ip:
  assumes "Type service = ''http'' \<or> Type service = ''stream''"
  shows "keyed m \<Longrightarrow> '''' \<notin> srvIP ` set (members m service) \<Longrightarrow>
         runUpdates E service calls (os, m) = (os', m') \<Longrightarrow>
         '''' \<notin> srvIP ` set (members m' service)"
proof (induction calls arbitrary: os m)
  case Nil
  then show ?case by simp
next
  case (Cons call calls)
  obtain ip port where call: "call = (ip, port)" by (cases call)
  obtain err os1 m1 where step: "UpdateService E os m service ip port = (err, os1, m1)"
    by (cases "UpdateService E os m service ip port")
  from UpdateService_members[OF Cons.prems(1) assms step]
  have mem1: "members m1 service =
           (if ip \<noteq> '''' \<and> port \<noteq> ''''
            then updateUpstreamServer (members m service) \<lparr>srvIP = ip, srvPort = port\<rparr>
            else removeUpstreamServer (members m service) ip)" and k1: "keyed m1"
    by simp_all
  have e1: "'''' \<notin> srvIP ` set (members m1 service)"
  proof (cases "ip \<noteq> '''' \<and> port \<noteq> ''''")
    case True
    then show ?thesis using Cons.prems(2) by (auto simp: mem1 set_update_ips)
  next
    case False
    then show ?thesis using Cons.prems(2) set_remove_subset[of "members m service" ip]
      by (auto simp: mem1)
  qed
  have run: "runUpdates E service calls (os1, m1) = (os', m')"
    using Cons.prems(3) by (simp add: call step)
  from Cons.IH[OF k1 e1 run] show ?case .
qed

lemma updateNginxConfig_stop_log:
  "execLog (fst (updateNginxConfig E os w service None)) =
     (if fst (UpdateService E os (nginxMgr w) service '''' '''') \<noteq> None then execLog os
      else if Fields (NginxReloadCmd (Global (config (nginxMgr w)))) = [] then execLog os
      else execLog os @ [Fields (NginxReloadCmd (Global (config (nginxMgr w))))])"
proof -
  obtain err os' m' where u: "UpdateService E os (nginxMgr w) service '''' '''' = (err, os', m')"
    by (cases "UpdateService E os (nginxMgr w) service '''' ''''")
  from UpdateService_frame[OF u] have f: "execLog os' = execLog os" "config m' = config (nginxMgr w)"
    by simp_all
  show ?thesis
    by (simp add: updateNginxConfig_def u Manager_Reload_def Let_def f split: prod.splits)
qed

lemma Fields_nbsp: "Fields [CHR 0xC2, CHR 0xA0] = []"
  by (simp add: Fields_def spaceWidth_def asciiSpace_def)

lemma exFreshUpd:
  "UpdateService repoEngine exOS (NewManager exConfig) exApi '''' '''' =
      (None, exOS, NewManager exConfig)"
  by (simp add: UpdateService_def updateHTTPService_def generateHTTPConfig_def
      deleteHTTPConfig_def os_Remove_def IsNotExist_def filepath_Join_def Let_def
      exApi_def NewManager_def exConfig_def exGlobal_def exOS_def)

lemma exFreshStop:
  "handleEvent repoEngine exDocker exOS (New exConfig) exStop =
     (exOS\<lparr>execLog := [[''nginx'', ''-s'', ''reload'']]\<rparr>, New exConfig)"
proof -
  have c: "NginxReloadCmd (Global (config (NewManager exConfig))) = ''nginx -s reload''"
    by (simp add: NewManager_def exConfig_def exGlobal_def)
  have r: "Manager_Reload exOS (NewManager exConfig) =
      (None, exOS\<lparr>execLog := [[''nginx'', ''-s'', ''reload'']]\<rparr>)"
    by (simp add: Manager_Reload_def c Fields_reload, simp add: exOS_def)
  have "handleEvent repoEngine exDocker exOS (New exConfig) exStop =
      updateNginxConfig repoEngine exOS (New exConfig) exApi None"
    by (simp add: handleEvent_def exStop_def handleContainerStop_def getContainerInfo_def
        exDocker_def exName New_def exMatch exValid)
  also have "\<dots> = (exOS\<lparr>execLog := [[''nginx'', ''-s'', ''reload'']]\<rparr>, New exConfig)"
    by (simp add: updateNginxConfig_def New_def exFreshUpd r)
  finally show ?thesis .
qed

text \<open>
  C8, as the code has it. A stop or die event runs the reload command exactly when the
  container is inspected, matches a service that validates, \<open>UpdateService\<close> returns
  no error and the reload command has at least one field; nothing in the condition looks
  at whether a member was removed.
\<close>

theorem stop_reload_condition:
  assumes "Action event = ''stop'' \<or> Action event = ''die''"
  shows "execLog (fst (handleEvent E D os w event)) =
     (case D (ActorID event) of
        None \<Rightarrow> execLog os
      | Some container \<Rightarrow>
          (case GetServiceByContainerName (wconfig w) (cName container) of
             None \<Rightarrow> execLog os
           | Some service \<Rightarrow>
               if ValidateService service \<noteq> None then execLog os
               else if fst (UpdateService E os (nginxMgr w) service '''' '''') \<noteq> None then execLog os
               else if Fields (NginxReloadCmd (Global (config (nginxMgr w)))) = [] then execLog os
               else execLog os @ [Fields (NginxReloadCmd (Global (config (nginxMgr w))))]))"
proof -
  have "handleEvent E D os w event = handleContainerStop E D os w (ActorID event)"
    using assms by (auto simp: handleEvent_def)
  then show ?thesis
    by (simp add: handleContainerStop_def getContainerInfo_def updateNginxConfig_stop_log
        split: option.splits)
qed

theorem stop_reload_condition_witness:
  "(Action exDie = ''stop'' \<or> Action exDie = ''die'') \<and>
   execLog exOS1 = [[''nginx'', ''-s'', ''reload'']] \<and>
   execLog (fst (handleEvent repoEngine exDocker exOS1
                   \<lparr>wconfig = exConfig, nginxMgr = exMgr1\<rparr> exDie)) =
     [[''nginx'', ''-s'', ''reload''], [''nginx'', ''-s'', ''reload'']] \<and>
   Validate exNbspConfig = None \<and>
   NginxReloadCmd (Global exNbspConfig) = [CHR 0xC2, CHR 0xA0] \<and>
   execLog (fst (handleEvent repoEngine exDocker exOS (New exNbspConfig) exDie)) = []"
proof -
  have a: "Action exDie = ''stop'' \<or> Action exDie = ''die''" "ActorID exDie = ''c1''"
    by (simp_all add: exDie_def)
  have d: "exDocker ''c1'' = Some exContainer" by (simp add: exDocker_def)
  have c: "NginxReloadCmd (Global (config exMgr1)) = ''nginx -s reload''"
    by (simp add: exMgr1_def exConfig_def exGlobal_def)
  have l: "execLog exOS1 = [[''nginx'', ''-s'', ''reload'']]" "execLog exOS = []"
    by (simp_all add: exOS1_def exOS_def)
  have n: "GetServiceByContainerName exNbspConfig ''/my-api'' = Some exApi"
    "NginxReloadCmd (Global (config (NewManager exNbspConfig))) = [CHR 0xC2, CHR 0xA0]"
    "NginxReloadCmd (Global exNbspConfig) = [CHR 0xC2, CHR 0xA0]"
    "Validate exNbspConfig = None"
    by (simp_all add: GetServiceByContainerName_def exNbspConfig_def exConfig_def exGlobal_def
        TrimPrefix_def exApi_def NewManager_def Validate_def)
  note A = stop_reload_condition[OF a(1), of repoEngine exDocker exOS1
      "\<lparr>wconfig = exConfig, nginxMgr = exMgr1\<rparr>"]
  note B = stop_reload_condition[OF a(1), of repoEngine exDocker exOS "New exNbspConfig"]
  have p: "execLog (fst (handleEvent repoEngine exDocker exOS1
                   \<lparr>wconfig = exConfig, nginxMgr = exMgr1\<rparr> exDie)) =
     [[''nginx'', ''-s'', ''reload''], [''nginx'', ''-s'', ''reload'']]"
    using A by (simp add: a(2) d exName exMatch exValid exUpd2 c Fields_reload l)
  have q: "execLog (fst (handleEvent repoEngine exDocker exOS (New exNbspConfig) exDie)) = []"
    using B by (simp add: a(2) d exName New_def n exValid Fields_nbsp l)
  show ?thesis using a(1) l(1) n(3,4) p q by simp
qed

text \<open>
  C8 as stated fails on a stop event for the container of \<open>api\<close> while the registry
  is empty: there is no member before and none after, so nothing is removed, and the
  reload command runs.
\<close>

theorem stop_reloads_without_removal:
  "members (nginxMgr (New exConfig)) exApi = [] \<and>
   members (nginxMgr (snd (handleEvent repoEngine exDocker exOS (New exConfig) exStop))) exApi = [] \<and>
   execLog exOS = [] \<and>
   execLog (fst (handleEvent repoEngine exDocker exOS (New exConfig) exStop)) =
     [[''nginx'', ''-s'', ''reload'']]"
  by (simp add: exFreshStop, simp add: members_def New_def NewManager_def exApi_def exOS_def)

subsection \<open>Reloading the configuration\<close>

lemma Load_valid: "Load Y os f = Inr n \<Longrightarrow> Validate n = None \<and> filePath n = f"
  by (auto simp: Load_def Let_def split: sum.splits option.splits prod.splits)

text \<open>
  C6. \<open>Config.Reload\<close> loads from the stored path; when the load fails (the file
  cannot be read, the decoder rejects it, or the global section does not validate) the
  configuration is returned as it was, and otherwise it is the loaded configuration as a
  whole, which validates and keeps the path. A tick of the poller follows suit: on a
  failed load the watcher, with its manager, is unchanged and no rescan starts; on a
  detected change with a successful load the watcher and the manager both hold the loaded
  configuration.
\<close>

theorem config_reload_all_or_nothing:
  "(\<forall>err. Load Y os (filePath c) = Inl err \<longrightarrow> Config_Reload Y os c = (Some err, c)) \<and>
   (\<forall>n. Load Y os (filePath c) = Inr n \<longrightarrow>
        Config_Reload Y os c = (None, n) \<and> Validate n = None \<and> filePath n = filePath c) \<and>
   (\<forall>err. Load Y os (filePath (wconfig w)) = Inl err \<longrightarrow> watchConfigFileTick Y os w = (w, False)) \<and>
   (\<forall>n. Load Y os (filePath (wconfig w)) = Inr n \<and> HasChanged os (wconfig w) \<longrightarrow>
        watchConfigFileTick Y os w =
          (\<lparr>wconfig = n, nginxMgr = (nginxMgr w)\<lparr>config := n\<rparr>\<rparr>, True))"
proof (intro conjI allI impI)
  fix err assume "Load Y os (filePath c) = Inl err"
  then show "Config_Reload Y os c = (Some err, c)" by (simp add: Config_Reload_def)
next
  fix n assume a: "Load Y os (filePath c) = Inr n"
  then show "Config_Reload Y os c = (None, n)" by (simp add: Config_Reload_def)
  from Load_valid[OF a] show "Validate n = None" "filePath n = filePath c" by simp_all
next
  fix err assume "Load Y os (filePath (wconfig w)) = Inl err"
  then show "watchConfigFileTick Y os w = (w, False)"
    by (simp add: watchConfigFileTick_def Config_Reload_def)
next
  fix n assume "Load Y os (filePath (wconfig w)) = Inr n \<and> HasChanged os (wconfig w)"
  then show "watchConfigFileTick Y os w =
          (\<lparr>wconfig = n, nginxMgr = (nginxMgr w)\<lparr>config := n\<rparr>\<rparr>, True)"
    by (simp add: watchConfigFileTick_def Config_Reload_def UpdateConfig_def)
qed

theorem config_reload_all_or_nothing_witness:
  "HasChanged exOSbad exConfig \<and>
   Load exYaml exOSbad ''conf/config.yaml'' = Inl ErrParseConfig \<and>
   Config_Reload exYaml exOSbad exConfig = (Some ErrParseConfig, exConfig) \<and>
   watchConfigFileTick exYaml exOSbad (New exConfig) = (New exConfig, False) \<and>
   Load exYaml exOSnodirs ''conf/config.yaml'' = Inl (ErrValidation ErrNginxConfigDirEmpty) \<and>
   Config_Reload exYaml exOSnodirs exConfig = (Some (ErrValidation ErrNginxConfigDirEmpty), exConfig) \<and>
   watchConfigFileTick exYaml exOSnodirs (New exConfig) = (New exConfig, False) \<and>
   HasChanged exOSgood exConfig \<and>
   Load exYaml exOSgood ''conf/config.yaml'' = Inr exConfig2 \<and>
   Config_Reload exYaml exOSgood exConfig = (None, exConfig2) \<and>
   watchConfigFileTick exYaml exOSgood (New exConfig) =
     (\<lparr>wconfig = exConfig2, nginxMgr = (NewManager exConfig)\<lparr>config := exConfig2\<rparr>\<rparr>, True)"
proof -
  have f: "filePath exConfig = ''conf/config.yaml''" "wconfig (New exConfig) = exConfig"
    "nginxMgr (New exConfig) = NewManager exConfig"
    by (simp_all add: exConfig_def New_def)
  have h: "HasChanged exOSbad exConfig" "HasChanged exOSgood exConfig"
    by (simp_all add: HasChanged_def os_Stat_def exOSbad_def exOSgood_def exConfig_def)
  have b: "Load exYaml exOSbad ''conf/config.yaml'' = Inl ErrParseConfig"
    by (simp add: Load_def os_ReadFile_def exOSbad_def exOS_def exYaml_def)
  have d: "Load exYaml exOSnodirs ''conf/config.yaml'' = Inl (ErrValidation ErrNginxConfigDirEmpty)"
    by (simp add: Load_def os_ReadFile_def os_Stat_def exOSnodirs_def exOS_def exYaml_def
        Validate_def exGlobal_def)
  have g: "Load exYaml exOSgood ''conf/config.yaml'' = Inr exConfig2"
    by (simp add: Load_def os_ReadFile_def os_Stat_def exOSgood_def exOS_def exYaml_def
        Validate_def exGlobal_def exConfig2_def)
  note B = config_reload_all_or_nothing[of exYaml exOSbad exConfig "New exConfig", unfolded f]
  note D = config_reload_all_or_nothing[of exYaml exOSnodirs exConfig "New exConfig", unfolded f]
  note G = config_reload_all_or_nothing[of exYaml exOSgood exConfig "New exConfig", unfolded f]
  from B b have b': "Config_Reload exYaml exOSbad exConfig = (Some ErrParseConfig, exConfig)"
    "watchConfigFileTick exYaml exOSbad (New exConfig) = (New exConfig, False)" by blast+
  from D d have d': "Config_Reload exYaml exOSnodirs exConfig = (Some (ErrValidation ErrNginxConfigDirEmpty), exConfig)"
    "watchConfigFileTick exYaml exOSnodirs (New exConfig) = (New exConfig, False)" by blast+
  from G g h(2) have g': "Config_Reload exYaml exOSgood exConfig = (None, exConfig2)"
    "watchConfigFileTick exYaml exOSgood (New exConfig) =
     (\<lparr>wconfig = exConfig2, nginxMgr = (NewManager exConfig)\<lparr>config := exConfig2\<rparr>\<rparr>, True)" by blast+
  show ?thesis using h b d g b' d' g' by simp
qed

subsection \<open>Matching a container to a service\<close>

lemma scanServices_None:
  "scanServices n ss = None \<longleftrightarrow> (\<forall>s \<in> set ss. TrimPrefix (ContainerName s) ''/'' \<noteq> n)"
  by (induction ss) (auto simp: Let_def)

lemma scanServices_Some:
  "scanServices n ss = Some s \<Longrightarrow>
   \<exists>pre post. ss = pre @ s # post \<and> TrimPrefix (ContainerName s) ''/'' = n \<and>
     (\<forall>t \<in> set pre. TrimPrefix (ContainerName t) ''/'' \<noteq> n)"
proof (induction ss)
  case Nil
  then show ?case by simp
next
  case (Cons a ss)
  show ?case
  proof (cases "TrimPrefix (ContainerName a) ''/'' = n")
    case True
    with Cons.prems have "s = a" by (simp add: Let_def)
    with True have "a # ss = [] @ s # ss \<and> TrimPrefix (ContainerName s) ''/'' = n \<and>
      (\<forall>t \<in> set []. TrimPrefix (ContainerName t) ''/'' \<noteq> n)" by simp
    then show ?thesis by blast
  next
    case False
    with Cons.prems have "scanServices n ss = Some s" by (simp add: Let_def)
    from Cons.IH[OF this] obtain pre post where
      "ss = pre @ s # post" "TrimPrefix (ContainerName s) ''/'' = n"
      "\<forall>t \<in> set pre. TrimPrefix (ContainerName t) ''/'' \<noteq> n" by blast
    with False have "a # ss = (a # pre) @ s # post \<and> TrimPrefix (ContainerName s) ''/'' = n \<and>
      (\<forall>t \<in> set (a # pre). TrimPrefix (ContainerName t) ''/'' \<noteq> n)" by simp
    then show ?thesis by blast
  qed
qed

lemma TrimPrefix_slash:
  "TrimPrefix x ''/'' = (case x of [] \<Rightarrow> [] | ch # r \<Rightarrow> if ch = CHR ''/'' then r else x)"
  by (cases x) (auto simp: TrimPrefix_def)

text \<open>
  C10. \<open>GetServiceByContainerName\<close> cuts one leading separator off the reported name
  and off every declared name, and scans the services in declaration order: it returns
  none exactly when no declared name matches, and a returned service matches and has no
  matching service declared before it.
\<close>

theorem GetServiceByContainerName_first_match:
  "TrimPrefix x ''/'' = (case x of [] \<Rightarrow> [] | ch # r \<Rightarrow> if ch = CHR ''/'' then r else x) \<and>
   (GetServiceByContainerName c name = None \<longleftrightarrow>
      (\<forall>s \<in> set (Services c). TrimPrefix (ContainerName s) ''/'' \<noteq> TrimPrefix name ''/'')) \<and>
   (\<forall>s. GetServiceByContainerName c name = Some s \<longrightarrow>
      (\<exists>pre post. Services c = pre @ s # post \<and>
         TrimPrefix (ContainerName s) ''/'' = TrimPrefix name ''/'' \<and>
         (\<forall>t \<in> set pre. TrimPrefix (ContainerName t) ''/'' \<noteq> TrimPrefix name ''/'')))"
  using scanServices_Some[of "TrimPrefix name ''/''" "Services c"]
  by (simp add: TrimPrefix_slash[of x] GetServiceByContainerName_def scanServices_None)

theorem GetServiceByContainerName_first_match_witness:
  "TrimPrefix ''//web'' ''/'' = ''/web'' \<and>
   GetServiceByContainerName exDupConfig ''/web'' = Some exWebA \<and>
   GetServiceByContainerName exDupConfig ''api'' = None \<and>
   (\<exists>pre post. Services exDupConfig = pre @ exWebA # post \<and>
      TrimPrefix (ContainerName exWebA) ''/'' = TrimPrefix ''/web'' ''/'' \<and>
      (\<forall>t \<in> set pre. TrimPrefix (ContainerName t) ''/'' \<noteq> TrimPrefix ''/web'' ''/''))"
proof -
  note T1 = GetServiceByContainerName_first_match[of "''//web''" exDupConfig "''/web''"]
  note T2 = GetServiceByContainerName_first_match[of "''api''" exDupConfig "''api''"]
  have a: "GetServiceByContainerName exDupConfig ''/web'' = Some exWebA"
    by (simp add: GetServiceByContainerName_def exDupConfig_def exDb_def exWebA_def exWebB_def
        TrimPrefix_def)
  have n: "\<forall>s \<in> set (Services exDupConfig).
             TrimPrefix (ContainerName s) ''/'' \<noteq> TrimPrefix ''api'' ''/''"
    by (simp add: exDupConfig_def exDb_def exWebA_def exWebB_def TrimPrefix_def)
  have b: "GetServiceByContainerName exDupConfig ''api'' = None"
    using T2 n by blast
  have t: "TrimPrefix ''//web'' ''/'' = ''/web''"
    using T1 by simp
  have e: "\<exists>pre post. Services exDupConfig = pre @ exWebA # post \<and>
      TrimPrefix (ContainerName exWebA) ''/'' = TrimPrefix ''/web'' ''/'' \<and>
      (\<forall>t \<in> set pre. TrimPrefix (ContainerName t) ''/'' \<noteq> TrimPrefix ''/web'' ''/'')"
    using T1 a by blast
  show ?thesis
    using a b t e by blast
qed

end
